theory Spec2Isabelle
  imports Complex_Main "HOL-Library.Multiset" "HOL-Library.Word"
begin
section \<open>Strings as the scorers use them\<close>

text \<open>
  JavaScript strings are modelled as \<open>string\<close> over the ASCII range; numbers are
  modelled as \<open>real\<close> (exact arithmetic in place of IEEE doubles).
  \<open>x || ''\<close> on a column that is \<open>null\<close>, \<open>undefined\<close> or empty is \<open>orEmpty\<close>.
\<close>

definition upperLetters :: string where
  "upperLetters = ''ABCDEFGHIJKLMNOPQRSTUVWXYZ''"

definition lowerLetters :: string where
  "lowerLetters = ''abcdefghijklmnopqrstuvwxyz''"

definition digitChars :: string where
  "digitChars = ''0123456789''"

definition lowerChar :: "char \<Rightarrow> char" where
  "lowerChar c = (case map_of (zip upperLetters lowerLetters) c of None \<Rightarrow> c | Some d \<Rightarrow> d)"

definition upperChar :: "char \<Rightarrow> char" where
  "upperChar c = (case map_of (zip lowerLetters upperLetters) c of None \<Rightarrow> c | Some d \<Rightarrow> d)"

definition toLowerCase :: "string \<Rightarrow> string" where
  "toLowerCase s = map lowerChar s"

text \<open>The regular-expression classes \<open>\s\<close> and \<open>\w\<close>.\<close>

definition isSpace :: "char \<Rightarrow> bool" where
  "isSpace c = (c \<in> set [CHR 0x09, CHR 0x0A, CHR 0x0B, CHR 0x0C, CHR 0x0D, CHR 0x20])"

definition isWordChar :: "char \<Rightarrow> bool" where
  "isWordChar c = (c \<in> set (lowerLetters @ upperLetters @ digitChars @ [CHR 0x5F]))"

definition orEmpty :: "string option \<Rightarrow> string" where
  "orEmpty v = (case v of None \<Rightarrow> [] | Some s \<Rightarrow> s)"

text \<open>
  \<open>s.split(/\s+/)\<close>: the pieces between maximal runs of white space; a leading or
  trailing run leaves an empty piece, and the empty string splits into one empty piece.
\<close>

fun splitWsFrom :: "string \<Rightarrow> bool \<Rightarrow> string \<Rightarrow> string list" where
  "splitWsFrom cur inSep [] = [rev cur]"
| "splitWsFrom cur inSep (c # cs) =
     (if isSpace c then
        (if inSep then splitWsFrom cur True cs else rev cur # splitWsFrom [] True cs)
      else splitWsFrom (c # cur) False cs)"

definition splitWs :: "string \<Rightarrow> string list" where
  "splitWs s = splitWsFrom [] False s"

text \<open>\<open>s.split(':')\<close> with a one-character separator.\<close>

fun splitCharFrom :: "char \<Rightarrow> string \<Rightarrow> string \<Rightarrow> string list" where
  "splitCharFrom sep cur [] = [rev cur]"
| "splitCharFrom sep cur (c # cs) =
     (if c = sep then rev cur # splitCharFrom sep [] cs else splitCharFrom sep (c # cur) cs)"

definition splitChar :: "char \<Rightarrow> string \<Rightarrow> string list" where
  "splitChar sep s = splitCharFrom sep [] s"

text \<open>\<open>text.includes(term)\<close>: \<open>term\<close> occurs in \<open>text\<close> as a contiguous substring.\<close>

fun startsWith :: "string \<Rightarrow> string \<Rightarrow> bool" where
  "startsWith s [] = True"
| "startsWith [] (t # ts) = False"
| "startsWith (c # cs) (t # ts) = (c = t \<and> startsWith cs ts)"

fun includes_str :: "string \<Rightarrow> string \<Rightarrow> bool" where
  "includes_str [] t = (t = [])"
| "includes_str (c # cs) t = (startsWith (c # cs) t \<or> includes_str cs t)"

subsection \<open>The word-boundary test\<close>

text \<open>
  \<open>new RegExp(`\\b${term}\\b`, 'i').test(text)\<close> interpolates the term into the pattern.
  For a term without regular-expression metacharacters the pattern reads the term
  literally, and the test succeeds when some occurrence of the term, compared without regard
  to case, has a word boundary on both sides; a word boundary lies between a \<open>\w\<close>
  character and a non-\<open>\w\<close> character or an end of the text. For a term with a
  metacharacter the outcome is that of the regular-expression engine, which is a parameter
  of the model (\<open>regexp\<close>): given the term and the text, it answers \<open>None\<close> when the
  constructor throws a SyntaxError (as for \<open>c++\<close>) and otherwise the result of the test (as
  for \<open>node.js\<close>, where the dot matches any character).
\<close>

type_synonym regexp = "string \<Rightarrow> string \<Rightarrow> bool option"

definition regexMeta :: string where
  "regexMeta = [CHR 0x5C, CHR 0x5E, CHR 0x24, CHR 0x2E, CHR 0x2A, CHR 0x2B, CHR 0x3F,
                CHR 0x28, CHR 0x29, CHR 0x5B, CHR 0x5D, CHR 0x7B, CHR 0x7D, CHR 0x7C]"

definition isLiteralTerm :: "string \<Rightarrow> bool" where
  "isLiteralTerm t = (\<forall>c \<in> set t. c \<notin> set regexMeta)"

text \<open>
  \<open>matchLiteral prevW t s\<close>: the term \<open>t\<close> matches a prefix of \<open>s\<close> ignoring case, where
  \<open>prevW\<close> tells whether the character before is a word character; the result is whether
  the last character consumed (or \<open>prevW\<close>, when nothing is consumed) is a word character,
  paired with the rest of the text.
\<close>

fun matchLiteral :: "bool \<Rightarrow> string \<Rightarrow> string \<Rightarrow> (bool \<times> string) option" where
  "matchLiteral prevW [] s = Some (prevW, s)"
| "matchLiteral prevW (t # ts) [] = None"
| "matchLiteral prevW (t # ts) (c # cs) =
     (if upperChar t = upperChar c then matchLiteral (isWordChar c) ts cs else None)"

definition nextIsWord :: "string \<Rightarrow> bool" where
  "nextIsWord s = (case s of [] \<Rightarrow> False | c # _ \<Rightarrow> isWordChar c)"

definition matchHere :: "string \<Rightarrow> bool \<Rightarrow> string \<Rightarrow> bool" where
  "matchHere t prevW s =
     (prevW \<noteq> nextIsWord s \<and>
      (case matchLiteral prevW t s of
         None \<Rightarrow> False
       | Some (lastW, rest) \<Rightarrow> lastW \<noteq> nextIsWord rest))"

fun wbScan :: "string \<Rightarrow> bool \<Rightarrow> string \<Rightarrow> bool" where
  "wbScan t prevW [] = matchHere t prevW []"
| "wbScan t prevW (c # cs) = (matchHere t prevW (c # cs) \<or> wbScan t (isWordChar c) cs)"

definition wordBoundaryTest :: "regexp \<Rightarrow> string \<Rightarrow> string \<Rightarrow> bool option" where
  "wordBoundaryTest rx t s = (if isLiteralTerm t then Some (wbScan t False s) else rx t s)"

section \<open>Result rows\<close>

record result_row =
  title :: "string option"
  description :: "string option"
  brand :: "string option"

text \<open>A \<open>forEach\<close> whose body may throw (\<open>None\<close>): the first exception ends the loop.\<close>

fun forEachOpt :: "('s \<Rightarrow> 'a \<Rightarrow> 's option) \<Rightarrow> 's \<Rightarrow> 'a list \<Rightarrow> 's option" where
  "forEachOpt f acc [] = Some acc"
| "forEachOpt f acc (x # xs) =
     (case f acc x of None \<Rightarrow> None | Some acc' \<Rightarrow> forEachOpt f acc' xs)"

section \<open>server.js: calculateRelevanceScore\<close>

definition haystack :: "result_row \<Rightarrow> string" where
  "haystack r =
     toLowerCase (orEmpty (title r) @ '' '' @ orEmpty (description r) @ '' '' @ orEmpty (brand r))"

text \<open>The body of the inner loop: the state is \<open>(termMatches, matchScore)\<close>.\<close>

definition matchTerm ::
  "regexp \<Rightarrow> string \<Rightarrow> real \<times> real \<Rightarrow> string \<Rightarrow> (real \<times> real) option" where
  "matchTerm rx txt st term =
     (case st of (termMatches, matchScore) \<Rightarrow>
        if includes_str txt term then
          (case wordBoundaryTest rx term txt of
             None \<Rightarrow> None
           | Some wb \<Rightarrow> Some (termMatches + 1, if wb then matchScore + 2 else matchScore + 1))
        else Some (termMatches, matchScore))"

definition titleBonusOf :: "string list \<Rightarrow> result_row \<Rightarrow> real" where
  "titleBonusOf queryTerms r =
     foldl (\<lambda>titleBonus term.
              if includes_str (toLowerCase (orEmpty (title r))) term then titleBonus + 3
              else titleBonus) 0 queryTerms"

definition resultScore :: "regexp \<Rightarrow> string list \<Rightarrow> nat \<Rightarrow> result_row \<Rightarrow> real option" where
  "resultScore rx queryTerms position r =
     (case forEachOpt (matchTerm rx (haystack r)) (0, 0) queryTerms of
        None \<Rightarrow> None
      | Some (termMatches, matchScore) \<Rightarrow>
          let termCoverage = termMatches / real (length queryTerms);
              positionWeight = 1 / (real position + 1);
              titleBonus = titleBonusOf queryTerms r
          in Some ((matchScore + titleBonus) * termCoverage * positionWeight))"

fun scoreResults ::
  "regexp \<Rightarrow> string list \<Rightarrow> nat \<Rightarrow> real \<Rightarrow> result_row list \<Rightarrow> real option" where
  "scoreResults rx queryTerms position totalScore [] = Some totalScore"
| "scoreResults rx queryTerms position totalScore (r # rs) =
     (case resultScore rx queryTerms position r of
        None \<Rightarrow> None
      | Some s \<Rightarrow> scoreResults rx queryTerms (Suc position) (totalScore + s) rs)"

text \<open>The result is \<open>None\<close> when the function throws the SyntaxError of a pattern.\<close>

definition calculateRelevanceScore ::
  "regexp \<Rightarrow> result_row list option \<Rightarrow> string \<Rightarrow> real option" where
  "calculateRelevanceScore rx results query =
     (case results of
        None \<Rightarrow> Some 0
      | Some rs \<Rightarrow>
          if length rs = 0 then Some 0
          else
            let queryTerms = splitWs (toLowerCase query) in
            (case scoreResults rx queryTerms 0 0 rs of
               None \<Rightarrow> None
             | Some totalScore \<Rightarrow>
                 let maxPossibleScore = real (length rs) * real (length queryTerms) * 5
                 in Some (min 100 ((totalScore / maxPossibleScore) * 100))))"

section \<open>server.js: calculateNDCG\<close>

definition termGain :: "result_row \<Rightarrow> real \<Rightarrow> string \<Rightarrow> real" where
  "termGain r score term =
     (let s1 = (if includes_str (toLowerCase (orEmpty (title r))) term then score + 3 else score);
          s2 = (if includes_str (toLowerCase (orEmpty (description r))) term then s1 + 1 else s1)
      in (if includes_str (toLowerCase (orEmpty (brand r))) term then s2 + 2 else s2))"

definition relevanceOf :: "string list \<Rightarrow> result_row \<Rightarrow> real" where
  "relevanceOf queryTerms r =
     foldl (termGain r) 0 queryTerms / (real (length queryTerms) * 6)"

text \<open>The accumulation loop shared by DCG and IDCG; \<open>i\<close> is the zero-based index.\<close>

fun dcgLoop :: "nat \<Rightarrow> real \<Rightarrow> real list \<Rightarrow> real" where
  "dcgLoop i dcg [] = dcg"
| "dcgLoop i dcg (score # scores) =
     dcgLoop (Suc i) (dcg + (2 powr score - 1) / log 2 (real (i + 1) + 1)) scores"

definition relevanceScores :: "nat \<Rightarrow> result_row list \<Rightarrow> string \<Rightarrow> real list" where
  "relevanceScores k rs query =
     map (relevanceOf (splitWs (toLowerCase query))) (take k rs)"

definition dcgOf :: "nat \<Rightarrow> result_row list \<Rightarrow> string \<Rightarrow> real" where
  "dcgOf k rs query = dcgLoop 0 0 (relevanceScores k rs query)"

text \<open>\<open>[...relevanceScores].sort((a, b) => b - a)\<close> is the stable descending sort.\<close>

definition sortDescending :: "real list \<Rightarrow> real list" where
  "sortDescending xs = sort_key uminus xs"

definition idcgOf :: "nat \<Rightarrow> result_row list \<Rightarrow> string \<Rightarrow> real" where
  "idcgOf k rs query = dcgLoop 0 0 (sortDescending (relevanceScores k rs query))"

definition calculateNDCG_k :: "result_row list option \<Rightarrow> string \<Rightarrow> nat \<Rightarrow> real" where
  "calculateNDCG_k results query k =
     (case results of
        None \<Rightarrow> 0
      | Some rs \<Rightarrow>
          if length rs = 0 then 0
          else
            let dcg = dcgOf k rs query; idcg = idcgOf k rs query
            in if idcg = 0 then 0 else (dcg / idcg) * 100)"

definition calculateNDCG :: "result_row list option \<Rightarrow> string \<Rightarrow> real" where
  "calculateNDCG results query = calculateNDCG_k results query 10"

section \<open>The benchmark script: calculateRelevance\<close>

definition stripPunctuation :: "string \<Rightarrow> string" where
  "stripPunctuation s = filter (\<lambda>c. isWordChar c \<or> isSpace c) s"

definition searchTermsOf :: "string \<Rightarrow> string list" where
  "searchTermsOf query =
     (if includes_str query '':'' then
        (let fieldQuery = splitChar CHR 0x3A query in
         if length fieldQuery = 2 then [toLowerCase (fieldQuery ! 1)]
         else splitWs (stripPunctuation (toLowerCase query)))
      else splitWs (stripPunctuation (toLowerCase query)))"

definition benchHaystack :: "result_row \<Rightarrow> string" where
  "benchHaystack r =
     toLowerCase (orEmpty (title r) @ '' '' @ orEmpty (brand r) @ '' '' @ orEmpty (description r))"

definition benchMatchTerm :: "regexp \<Rightarrow> string \<Rightarrow> real \<Rightarrow> string \<Rightarrow> real option" where
  "benchMatchTerm rx txt matchScore term =
     (if includes_str txt term then
        (case wordBoundaryTest rx term txt of
           None \<Rightarrow> None
         | Some wb \<Rightarrow> Some (if wb then (matchScore + 2) + 3 else matchScore + 2))
      else Some matchScore)"

fun benchScoreResults ::
  "regexp \<Rightarrow> string list \<Rightarrow> nat \<Rightarrow> real \<Rightarrow> result_row list \<Rightarrow> real option" where
  "benchScoreResults rx searchTerms position totalScore [] = Some totalScore"
| "benchScoreResults rx searchTerms position totalScore (r # rs) =
     (case forEachOpt (benchMatchTerm rx (benchHaystack r)) 0 searchTerms of
        None \<Rightarrow> None
      | Some matchScore \<Rightarrow>
          let positionWeight = 1 / (real position + 1)
          in benchScoreResults rx searchTerms (Suc position)
               (totalScore + matchScore * positionWeight) rs)"

text \<open>\<open>Math.round\<close> rounds to the nearest integer, halves upwards.\<close>

definition mathRound :: "real \<Rightarrow> real" where
  "mathRound x = of_int \<lfloor>x + 1 / 2\<rfloor>"

definition calculateRelevance ::
  "regexp \<Rightarrow> result_row list option \<Rightarrow> string \<Rightarrow> real option" where
  "calculateRelevance rx results query =
     (case results of
        None \<Rightarrow> Some 0
      | Some rs \<Rightarrow>
          if length rs = 0 then Some 0
          else
            (case benchScoreResults rx (searchTermsOf query) 0 0 rs of
               None \<Rightarrow> None
             | Some totalScore \<Rightarrow> Some (mathRound totalScore)))"

section \<open>ingest-amazon-data.go: products and rows\<close>

text \<open>
  A decoded JSON value, as far as \<open>insertBatch\<close> tells values apart: a string, a list,
  or anything else.
\<close>

datatype json = JString string | JArray "json list" | JOther

record Product =
  ASIN :: string
  Title :: string
  Description :: string
  Price :: string
  Brand :: string
  Categories :: "json list"
  SalesRank :: "(string \<times> json) list"
  ImageURL :: string

text \<open>
  The eight values bound to the INSERT statement. The \<open>sales_rank\<close> column holds the JSON
  encoding of \<open>SalesRank\<close>; the model keeps the encoded value itself.
\<close>

record row =
  r_asin :: string
  r_title :: string
  r_description :: string
  r_price :: string
  r_brand :: string
  r_categories :: string
  r_sales_rank :: "(string \<times> json) list"
  r_image_url :: string

definition backslash :: char where
  "backslash = CHR 0x5C"

definition dquote :: char where
  "dquote = CHR 0x22"

text \<open>The two \<open>strings.ReplaceAll\<close> calls that escape backslashes, then double quotes.\<close>

definition escapeCategory :: "string \<Rightarrow> string" where
  "escapeCategory str =
     concat (map (\<lambda>c. if c = dquote then [backslash, dquote] else [c])
       (concat (map (\<lambda>c. if c = backslash then [backslash, backslash] else [c]) str)))"

fun subCategoryStrings :: "json list \<Rightarrow> string list" where
  "subCategoryStrings [] = []"
| "subCategoryStrings (JString str # rest) = escapeCategory str # subCategoryStrings rest"
| "subCategoryStrings (_ # rest) = subCategoryStrings rest"

fun categoryStrings :: "json list \<Rightarrow> string list" where
  "categoryStrings [] = []"
| "categoryStrings (JArray catList # rest) = subCategoryStrings catList @ categoryStrings rest"
| "categoryStrings (JString str # rest) = escapeCategory str # categoryStrings rest"
| "categoryStrings (JOther # rest) = categoryStrings rest"

fun joinWith :: "string \<Rightarrow> string list \<Rightarrow> string" where
  "joinWith sep [] = []"
| "joinWith sep [s] = s"
| "joinWith sep (s # t # rest) = s @ sep @ joinWith sep (t # rest)"

definition categoriesArray :: "json list \<Rightarrow> string" where
  "categoriesArray cats =
     (if length cats > 0 then
        (if length (categoryStrings cats) > 0
         then [CHR 0x7B, dquote] @ joinWith [dquote, CHR 0x2C, dquote] (categoryStrings cats)
                @ [dquote, CHR 0x7D]
         else [CHR 0x7B, CHR 0x7D])
      else [CHR 0x7B, CHR 0x7D])"

definition toRow :: "Product \<Rightarrow> row" where
  "toRow p =
     \<lparr>r_asin = ASIN p, r_title = Title p, r_description = Description p,
      r_price = (if Price p = [] \<or> Price p = ''null'' then ''0'' else Price p),
      r_brand = (if Brand p = [] then ''Unknown'' else Brand p),
      r_categories = categoriesArray (Categories p),
      r_sales_rank = SalesRank p,
      r_image_url = ImageURL p\<rparr>"

section \<open>ingest-amazon-data.go: insertBatch\<close>

text \<open>
  The database handle is a parameter: the calls that \<open>insertBatch\<close> makes on it, each
  with its error result. \<open>'db\<close> is the state of the database, \<open>'tx\<close> the state of an
  open transaction.
\<close>

record ('db, 'tx) store =
  db_Begin :: "'db \<Rightarrow> string + 'tx"
  tx_Prepare :: "'tx \<Rightarrow> string + 'tx"
  stmt_Exec :: "'tx \<Rightarrow> row \<Rightarrow> string option \<times> 'tx"
  tx_Commit :: "'db \<Rightarrow> 'tx \<Rightarrow> string option \<times> 'db"
  tx_Rollback :: "'db \<Rightarrow> 'tx \<Rightarrow> 'db"

text \<open>
  The loop over the batch. An error of \<open>stmt.Exec\<close> is logged with the product's ASIN and
  the loop goes on to the next product.
\<close>

fun execLoop ::
  "('db, 'tx) store \<Rightarrow> 'tx \<Rightarrow> (string \<times> string) list \<Rightarrow> Product list
     \<Rightarrow> 'tx \<times> (string \<times> string) list" where
  "execLoop S tx logged [] = (tx, logged)"
| "execLoop S tx logged (p # ps) =
     (case stmt_Exec S tx (toRow p) of
        (Some err, tx') \<Rightarrow> execLoop S tx' (logged @ [(ASIN p, err)]) ps
      | (None, tx') \<Rightarrow> execLoop S tx' logged ps)"

text \<open>
  The result is the returned error, the database afterwards and the lines logged. The
  deferred \<open>tx.Rollback()\<close> undoes the transaction on the early return and does nothing
  after \<open>tx.Commit()\<close>.
\<close>

definition insertBatch ::
  "('db, 'tx) store \<Rightarrow> 'db \<Rightarrow> Product list \<Rightarrow> string option \<times> 'db \<times> (string \<times> string) list" where
  "insertBatch S db products =
     (if length products = 0 then (None, db, [])
      else
        (case db_Begin S db of
           Inl err \<Rightarrow> (Some err, db, [])
         | Inr tx \<Rightarrow>
             (case tx_Prepare S tx of
                Inl err \<Rightarrow> (Some err, tx_Rollback S db tx, [])
              | Inr tx1 \<Rightarrow>
                  (case execLoop S tx1 [] products of
                     (tx2, logged) \<Rightarrow>
                       (case tx_Commit S db tx2 of
                          (err, db') \<Rightarrow> (err, db', logged))))))"

text \<open>
  The table that \<open>setupTables\<close> creates bounds three of the columns:
  \<open>asin VARCHAR(20)\<close>, \<open>price VARCHAR(50)\<close> and \<open>brand VARCHAR(200)\<close>. A row with a longer
  value is refused by the INSERT statement.
\<close>

definition violatesSchema :: "row \<Rightarrow> bool" where
  "violatesSchema r = (length (r_asin r) > 20 \<or> length (r_price r) > 50 \<or> length (r_brand r) > 200)"

text \<open>
  PostgreSQL, the database that \<open>getDB\<close> opens through the \<open>lib/pq\<close> driver. A
  transaction is the rows inserted so far and whether a statement has failed. Once a
  statement has failed, the transaction is aborted: every later statement is refused, and
  \<open>Commit\<close> rolls the transaction back and returns an error. \<open>rejects\<close> tells which rows
  the INSERT statement refuses.
\<close>

definition pgStore :: "(row \<Rightarrow> bool) \<Rightarrow> (row list, row list \<times> bool) store" where
  "pgStore rejects =
     \<lparr>db_Begin = (\<lambda>db. Inr ([], False)),
      tx_Prepare = (\<lambda>tx. Inr tx),
      stmt_Exec = (\<lambda>tx r.
        (case tx of (inserted, failed) \<Rightarrow>
           if failed then (Some ''pq: current transaction is aborted'', (inserted, True))
           else if rejects r then (Some ''pq: statement failed'', (inserted, True))
           else (None, (inserted @ [r], False)))),
      tx_Commit = (\<lambda>db tx.
        (case tx of (inserted, failed) \<Rightarrow>
           if failed then (Some ''pq: Could not complete operation in a failed transaction'', db)
           else (None, db @ inserted))),
      tx_Rollback = (\<lambda>db tx. db)\<rparr>"

text \<open>
  A store whose statement errors are local to the record: a row that the table rejects
  gives an error and leaves the transaction as it was, any other row is added to it, and
  the commit appends the transaction's rows to the table. This is not the rule of
  PostgreSQL; the two stores agree on the batches of which no row is rejected
  (\<open>pgStore_no_rejection\<close>).
\<close>

definition recordStore :: "(row \<Rightarrow> bool) \<Rightarrow> (row list, row list) store" where
  "recordStore rejects =
     \<lparr>db_Begin = (\<lambda>db. Inr []),
      tx_Prepare = (\<lambda>tx. Inr tx),
      stmt_Exec = (\<lambda>tx r. if rejects r then (Some ''rejected'', tx) else (None, tx @ [r])),
      tx_Commit = (\<lambda>db tx. (None, db @ tx)),
      tx_Rollback = (\<lambda>db tx. db)\<rparr>"

section \<open>ingest-amazon-data.go: processAmazonData\<close>

definition SampleSize :: int where
  "SampleSize = 0"

definition BatchSize :: nat where
  "BatchSize = 5000"

definition MaxWorkers :: nat where
  "MaxWorkers = 20"

text \<open>\<open>strings.ReplaceAll\<close>: the occurrences are replaced from left to right, without overlap.\<close>

fun stripPrefix :: "string \<Rightarrow> string \<Rightarrow> string option" where
  "stripPrefix [] s = Some s"
| "stripPrefix (p # ps) [] = None"
| "stripPrefix (p # ps) (c # cs) = (if p = c then stripPrefix ps cs else None)"

function ReplaceAll :: "string \<Rightarrow> string \<Rightarrow> string \<Rightarrow> string" where
  "ReplaceAll [] old new = (if old = [] then new else [])"
| "ReplaceAll (c # cs) old new =
     (if old = [] then new @ concat (map (\<lambda>x. x # new) (c # cs))
      else
        (case stripPrefix old (c # cs) of
           Some rest \<Rightarrow> new @ ReplaceAll rest old new
         | None \<Rightarrow> c # ReplaceAll cs old new))"
  by pat_completeness auto
termination
proof (relation "measure (\<lambda>(s, old, new). length s)")
  show "wf (measure (\<lambda>(s, old, new). length s))" by simp
next
  fix old new rest :: string and c cs
  assume "old \<noteq> []" "stripPrefix old (c # cs) = Some rest"
  moreover have "length s = length p + length r" if "stripPrefix p s = Some r" for p s r
    using that by (induction p s rule: stripPrefix.induct) (auto split: if_splits)
  ultimately have "length rest < length (c # cs)" by fastforce
  then show "((rest, old, new), (c # cs, old, new)) \<in> measure (\<lambda>(s, old, new). length s)"
    by simp
next
  fix old new :: string and c cs
  show "((cs, old, new), (c # cs, old, new)) \<in> measure (\<lambda>(s, old, new). length s)"
    by simp
qed

text \<open>The conversion of a line of the corpus (a Python dict literal) to JSON.\<close>

definition toJSONLine :: "string \<Rightarrow> string" where
  "toJSONLine line =
     ReplaceAll (ReplaceAll (ReplaceAll (ReplaceAll line [CHR 0x27] [dquote])
       ''True'' ''true'') ''False'' ''false'') ''None'' ''null''"

text \<open>
  The scanning loop. \<open>unmarshal\<close> is \<open>json.Unmarshal\<close> into a \<open>Product\<close>, with \<open>None\<close>
  for an error; \<open>lines\<close> are the lines that the scanner delivers. The state is the batch
  being filled, the counter \<open>processedCount\<close> (an \<open>int32\<close>) and the batches sent on the
  channel so far.
\<close>

type_synonym scan_state = "Product list \<times> 32 word \<times> Product list list"

fun scanLoop ::
  "(string \<Rightarrow> Product option) \<Rightarrow> nat \<Rightarrow> string list \<Rightarrow> scan_state \<Rightarrow> scan_state" where
  "scanLoop unmarshal batchSize [] st = st"
| "scanLoop unmarshal batchSize (line # rest) (batch, processedCount, sent) =
     (if \<not> (SampleSize = 0 \<or> sint processedCount < SampleSize) then (batch, processedCount, sent)
      else if line = [] then scanLoop unmarshal batchSize rest (batch, processedCount, sent)
      else
        (case unmarshal (toJSONLine line) of
           None \<Rightarrow> scanLoop unmarshal batchSize rest (batch, processedCount, sent)
         | Some product \<Rightarrow>
             let st' =
               (if ASIN product \<noteq> [] \<and> Title product \<noteq> [] then
                  (if length (batch @ [product]) \<ge> batchSize
                   then ([], processedCount + 1, sent @ [batch @ [product]])
                   else (batch @ [product], processedCount + 1, sent))
                else (batch, processedCount, sent))
             in if SampleSize > 0 \<and> sint (fst (snd st')) \<ge> SampleSize then st'
                else scanLoop unmarshal batchSize rest st'))"

text \<open>All batches sent on the channel: those of the loop, then the remaining partial batch.\<close>

definition sentBatches ::
  "(string \<Rightarrow> Product option) \<Rightarrow> nat \<Rightarrow> string list \<Rightarrow> Product list list" where
  "sentBatches unmarshal batchSize lines =
     (case scanLoop unmarshal batchSize lines ([], 0, []) of
        (batch, processedCount, sent) \<Rightarrow> (if length batch > 0 then sent @ [batch] else sent))"

definition finalCount :: "(string \<Rightarrow> Product option) \<Rightarrow> nat \<Rightarrow> string list \<Rightarrow> 32 word" where
  "finalCount unmarshal batchSize lines =
     (case scanLoop unmarshal batchSize lines ([], 0, []) of
        (batch, processedCount, sent) \<Rightarrow> processedCount)"

text \<open>
  The workers. Each batch sent on the channel is received by exactly one of the
  \<open>MaxWorkers\<close> goroutines, which calls \<open>insertBatch\<close> on it and logs its error. Which
  goroutine receives a batch does not enter the result; the order in which the batches'
  transactions take effect does, and is the parameter \<open>order\<close> (positions in the list of
  batches).
\<close>

fun runWorkers ::
  "('db, 'tx) store \<Rightarrow> 'db \<Rightarrow> Product list list \<Rightarrow> nat list \<Rightarrow> 'db \<times> string list" where
  "runWorkers S db batches [] = (db, [])"
| "runWorkers S db batches (i # order) =
     (case insertBatch S db (batches ! i) of
        (err, db', logged) \<Rightarrow>
          (case runWorkers S db' batches order of
             (db'', errs) \<Rightarrow>
               (db'', (case err of None \<Rightarrow> [] | Some e \<Rightarrow> [e]) @ errs)))"

text \<open>
  The data-loading part of \<open>processAmazonData\<close>: the count printed at the end and the
  database after the workers have finished.
\<close>

definition processAmazonData ::
  "('db, 'tx) store \<Rightarrow> (string \<Rightarrow> Product option) \<Rightarrow> nat list \<Rightarrow> 'db \<Rightarrow> string list
     \<Rightarrow> 32 word \<times> 'db" where
  "processAmazonData S unmarshal order db lines =
     (finalCount unmarshal BatchSize lines,
      fst (runWorkers S db (sentBatches unmarshal BatchSize lines) order))"

section \<open>The query dispatchers\<close>

text \<open>
  The SQL statements are kept by name, one constructor for each statement text of the
  sources (\<open>SV\<close>, \<open>SP\<close>: server.js against PostgreSQL and ParadeDB; \<open>BV\<close>, \<open>BP\<close>: the
  benchmark script). \<open>SV_field\<close> and \<open>BV_field\<close> carry the column name spliced into the
  statement.
\<close>

datatype sql =
    SV_fulltext | SV_boolean | SV_field string | SV_like | SV_exact | SV_default
  | SP_fulltext | SP_boolean | SP_field | SP_like_term | SP_like_match | SP_exact | SP_default
  | BV_fulltext | BV_boolean | BV_field string | BV_fuzzy | BV_exact
  | BP_fulltext | BP_boolean | BP_field | BP_fuzzy_term | BP_fuzzy_match | BP_exact

text \<open>
  A bound parameter: a text, \<open>undefined\<close>, or the query text after one of the
  regular-expression rewritings of the sources, which the model keeps symbolic:
  \<open>ServerTsQuery\<close> and \<open>BenchTsQuery\<close> for the chains of \<open>replace\<close> that build a
  \<open>to_tsquery\<close> argument, \<open>ParadeFields\<close> for the expansion of bare terms into the three
  fields, \<open>FieldStripped\<close> for \<open>query.replace(/\w+:/, '')\<close>.
\<close>

datatype bind =
    Text string | Undefined
  | ServerTsQuery string | BenchTsQuery string | ParadeFields string | FieldStripped string

record answer =
  rows :: "result_row list"
  rowCount :: nat
  elapsedMs :: nat

text \<open>
  \<open>pool.query(statement, params)\<close>: \<open>Inl\<close> is the message of the error it throws, \<open>Inr\<close>
  the answer, with the time the call took as the caller measures it.
\<close>

type_synonym pool = "sql \<Rightarrow> bind list \<Rightarrow> string + answer"

record QueryResult =
  results :: "result_row list"
  duration :: nat
  rcount :: nat
  error :: "string option"
  actualQuery :: "sql option"
  params :: "bind list"
  searchQuery :: "string option"
  engine :: "string option"

text \<open>The object built in each \<open>catch\<close>: \<open>{ duration: 0, count: 0, results: [], error: err.message }\<close>.\<close>

definition errorResult :: "string \<Rightarrow> QueryResult" where
  "errorResult msg =
     \<lparr>results = [], duration = 0, rcount = 0, error = Some msg, actualQuery = None,
      params = [], searchQuery = None, engine = None\<rparr>"

subsection \<open>The benchmark script: runVanillaQuery and runParadeQuery\<close>

datatype exn = TypeError | SyntaxError

text \<open>The statement and parameters of each \<open>case\<close>; \<open>None\<close> when no \<open>case\<close> matches.\<close>

definition nthOrUndefined :: "string list \<Rightarrow> nat \<Rightarrow> bind" where
  "nthOrUndefined xs i = (if i < length xs then Text (xs ! i) else Undefined)"

definition vanillaQueryCase :: "string \<Rightarrow> string \<Rightarrow> (sql \<times> bind list) option" where
  "vanillaQueryCase query searchType =
     (if searchType = ''fulltext'' then Some (BV_fulltext, [Text query])
      else if searchType = ''boolean'' then Some (BV_boolean, [BenchTsQuery query])
      else if searchType = ''field'' then
        (let parts = splitChar CHR 0x3A query
         in Some (BV_field (parts ! 0), [nthOrUndefined parts 1]))
      else if searchType = ''fuzzy'' then Some (BV_fuzzy, [Text query])
      else if searchType = ''exact'' then Some (BV_exact, [Text query])
      else None)"

definition benchResult :: "answer \<Rightarrow> QueryResult" where
  "benchResult a =
     \<lparr>results = rows a, duration = elapsedMs a, rcount = rowCount a, error = None,
      actualQuery = None, params = [], searchQuery = None, engine = None\<rparr>"

text \<open>
  When no \<open>case\<close> matches, \<open>result\<close> stays \<open>undefined\<close> and reading \<open>result.rowCount\<close>
  after the \<open>try\<close> throws a TypeError.
\<close>

definition runVanillaQuery :: "pool \<Rightarrow> string \<Rightarrow> string \<Rightarrow> exn + QueryResult" where
  "runVanillaQuery vanillaPool query searchType =
     (case vanillaQueryCase query searchType of
        None \<Rightarrow> Inl TypeError
      | Some (statement, ps) \<Rightarrow>
          (case vanillaPool statement ps of
             Inl msg \<Rightarrow> Inr (errorResult msg)
           | Inr a \<Rightarrow> Inr (benchResult a)))"

definition quoted :: "string \<Rightarrow> string" where
  "quoted s = [CHR 0x22] @ s @ [CHR 0x22]"

definition paradeQueryCase :: "string \<Rightarrow> string \<Rightarrow> (sql \<times> bind list) option" where
  "paradeQueryCase query searchType =
     (if searchType = ''fulltext'' then
        (if length (splitChar CHR 0x20 query) = 1
         then Some (BP_fulltext,
                [Text (''title:'' @ query @ ''^2 OR description:'' @ query @ '' OR brand:'' @ query
                       @ ''^1.5'')])
         else Some (BP_fulltext,
                [Text (''(title:'' @ quoted query @ '')^2 OR (description:'' @ quoted query
                       @ '') OR (brand:'' @ quoted query @ '')^1.5'')]))
      else if searchType = ''boolean'' then Some (BP_boolean, [ParadeFields query])
      else if searchType = ''field'' then Some (BP_field, [Text query])
      else if searchType = ''fuzzy'' then
        (if \<not> includes_str query '' '' then Some (BP_fuzzy_term, [Text query])
         else Some (BP_fuzzy_match, [Text query]))
      else if searchType = ''exact'' then
        Some (BP_exact,
          [Text (''title:'' @ quoted query @ ''^2 OR description:'' @ quoted query @ '' OR brand:''
                 @ quoted query @ ''^1.5'')])
      else None)"

definition runParadeQuery :: "pool \<Rightarrow> string \<Rightarrow> string \<Rightarrow> exn + QueryResult" where
  "runParadeQuery paradePool query searchType =
     (case paradeQueryCase query searchType of
        None \<Rightarrow> Inl TypeError
      | Some (statement, ps) \<Rightarrow>
          (case paradePool statement ps of
             Inl msg \<Rightarrow> Inr (errorResult msg)
           | Inr a \<Rightarrow> Inr (benchResult a)))"

subsection \<open>The benchmark script: the read loop of runBenchmark\<close>

definition testQueries :: "(string \<times> string list) list" where
  "testQueries =
     [(''fulltext'',
        [''wireless headphones'', ''apple iphone'', ''samsung galaxy'', ''laptop computer'',
         ''digital camera'', ''bluetooth speaker'', ''gaming mouse'', ''mechanical keyboard'',
         ''smart watch'', ''4k monitor'', ''coffee maker'', ''air fryer'']),
      (''boolean'',
        [''laptop AND gaming'', ''phone OR tablet'', ''camera NOT digital'',
         ''wireless AND (headphones OR earbuds)'', ''apple OR microsoft OR google'',
         ''laptop AND (dell OR hp OR lenovo)'', ''gaming AND keyboard AND mechanical'',
         ''speaker AND bluetooth AND waterproof'']),
      (''field'',
        [''title:iphone'', ''brand:samsung'', ''title:laptop'', ''brand:apple'',
         ''description:wireless'', ''title:camera'', ''brand:sony'', ''title:headphones'',
         ''description:gaming'', ''brand:microsoft'']),
      (''fuzzy'',
        [''samsu'', ''iphon'', ''wireles heaphones'', ''blutooth speker'', ''mechenical keybord'',
         ''digtal camra'', ''cofee makr'', ''laptp computr'', ''gamng mous'', ''smart wach'']),
      (''exact'',
        [''wireless headphones'', ''apple iphone'', ''samsung galaxy'', ''digital camera'',
         ''bluetooth speaker'', ''gaming keyboard'', ''4k monitor'', ''coffee maker'',
         ''smart watch'', ''air fryer''])]"

text \<open>The running totals of one engine for one search type.\<close>

record totals =
  totalTime :: nat
  totalRelevance :: real
  queries :: nat

text \<open>One line of the report: the query, and for each engine its time and relevance.\<close>

record report_line =
  line_query :: string
  vanillaMs :: nat
  vanillaRelevance :: real
  paradeMs :: nat
  paradeRelevance :: real

text \<open>\<open>!result.error\<close>: no error, or an error with an empty message.\<close>

definition noError :: "QueryResult \<Rightarrow> bool" where
  "noError r = (case error r of None \<Rightarrow> True | Some msg \<Rightarrow> msg = [])"

definition addTotals :: "totals \<Rightarrow> QueryResult \<Rightarrow> real \<Rightarrow> totals" where
  "addTotals t r relevance =
     (if noError r
      then \<lparr>totalTime = totalTime t + duration r, totalRelevance = totalRelevance t + relevance,
            queries = queries t + 1\<rparr>
      else t)"

text \<open>
  The inner loop over the queries of one search type. An exception of a dispatcher or of
  \<open>calculateRelevance\<close> leaves the loop (\<open>Inl\<close>) and with it \<open>runBenchmark\<close>. The queries
  that \<open>verifySetup\<close> makes before the loop are not part of it.
\<close>

fun queryLoop ::
  "regexp \<Rightarrow> pool \<Rightarrow> pool \<Rightarrow> string \<Rightarrow> string list
     \<Rightarrow> totals \<times> totals \<times> report_line list
     \<Rightarrow> exn + (totals \<times> totals \<times> report_line list)" where
  "queryLoop rx vanillaPool paradePool searchType [] st = Inr st"
| "queryLoop rx vanillaPool paradePool searchType (query # rest) (vt, pt, printed) =
     (case runVanillaQuery vanillaPool query searchType of
        Inl e \<Rightarrow> Inl e
      | Inr vanillaResult \<Rightarrow>
          (case runParadeQuery paradePool query searchType of
             Inl e \<Rightarrow> Inl e
           | Inr paradeResult \<Rightarrow>
               (case calculateRelevance rx (Some (results vanillaResult)) query of
                  None \<Rightarrow> Inl SyntaxError
                | Some vanillaRel \<Rightarrow>
                    (case calculateRelevance rx (Some (results paradeResult)) query of
                       None \<Rightarrow> Inl SyntaxError
                     | Some paradeRel \<Rightarrow>
                         queryLoop rx vanillaPool paradePool searchType rest
                           (addTotals vt vanillaResult vanillaRel,
                            addTotals pt paradeResult paradeRel,
                            printed @
                              [\<lparr>line_query = query, vanillaMs = duration vanillaResult,
                                vanillaRelevance = vanillaRel, paradeMs = duration paradeResult,
                                paradeRelevance = paradeRel\<rparr>])))))"

definition zeroTotals :: totals where
  "zeroTotals = \<lparr>totalTime = 0, totalRelevance = 0, queries = 0\<rparr>"

text \<open>
  The outer loop over the search types, with \<open>queries.slice(0, 5)\<close>; the result is
  \<open>readResults\<close> by search type.
\<close>

fun readLoop ::
  "regexp \<Rightarrow> pool \<Rightarrow> pool \<Rightarrow> (string \<times> string list) list
     \<Rightarrow> exn + (string \<times> totals \<times> totals \<times> report_line list) list" where
  "readLoop rx vanillaPool paradePool [] = Inr []"
| "readLoop rx vanillaPool paradePool ((searchType, qs) # rest) =
     (case queryLoop rx vanillaPool paradePool searchType (take 5 qs)
             (zeroTotals, zeroTotals, []) of
        Inl e \<Rightarrow> Inl e
      | Inr st \<Rightarrow>
          (case readLoop rx vanillaPool paradePool rest of
             Inl e \<Rightarrow> Inl e
           | Inr others \<Rightarrow> Inr ((searchType, st) # others)))"

subsection \<open>server.js: runVanillaSearch and runParadeSearch\<close>

text \<open>These two do not catch: an error of \<open>pool.query\<close> is thrown to the caller (\<open>Inl\<close>).\<close>

definition vanillaSearchCase :: "string \<Rightarrow> string \<Rightarrow> sql \<times> bind list" where
  "vanillaSearchCase query searchType =
     (if searchType = ''fulltext'' then (SV_fulltext, [Text query])
      else if searchType = ''boolean'' then (SV_boolean, [ServerTsQuery query])
      else if searchType = ''field'' then
        (let field = (if includes_str query ''title:'' then ''title''
                      else if includes_str query ''description:'' then ''description''
                      else if includes_str query ''brand:'' then ''brand'' else ''title'')
         in (SV_field field, [FieldStripped query]))
      else if searchType = ''like'' then (SV_like, [Text query])
      else if searchType = ''exact'' then (SV_exact, [Text query])
      else (SV_default, [Text query]))"

definition runVanillaSearch :: "pool \<Rightarrow> string \<Rightarrow> string \<Rightarrow> string + QueryResult" where
  "runVanillaSearch vanillaPool query searchType =
     (case vanillaSearchCase query searchType of
        (statement, ps) \<Rightarrow>
          (case vanillaPool statement ps of
             Inl msg \<Rightarrow> Inl msg
           | Inr a \<Rightarrow>
               Inr \<lparr>results = rows a, duration = elapsedMs a, rcount = rowCount a, error = None,
                    actualQuery = Some statement, params = ps, searchQuery = None,
                    engine = Some ''PostgreSQL Full-Text Search''\<rparr>))"

text \<open>The statement, the parameters and \<open>searchQuery\<close> of each \<open>case\<close>.\<close>

definition paradeSearchCase :: "string \<Rightarrow> string \<Rightarrow> sql \<times> bind list \<times> string option" where
  "paradeSearchCase query searchType =
     (if searchType = ''fulltext'' then
        (let sq = ''title:'' @ query @ ''^2 OR description:'' @ query @ '' OR brand:'' @ query
                  @ ''^1.5''
         in (SP_fulltext, [Text sq], Some sq))
      else if searchType = ''boolean'' then (SP_boolean, [ParadeFields query], None)
      else if searchType = ''field'' then (SP_field, [Text query], Some query)
      else if searchType = ''like'' then
        (if \<not> includes_str query '' ''
         then (SP_like_term, [Text query], Some (''fuzzy_term: '' @ query))
         else (SP_like_match, [Text query], Some (''fuzzy match: '' @ query)))
      else if searchType = ''exact'' then
        (let sq = ''title:'' @ quoted query @ ''^2 OR description:'' @ quoted query
                  @ '' OR brand:'' @ quoted query @ ''^1.5''
         in (SP_exact, [Text sq], Some sq))
      else
        (let sq = ''title:'' @ quoted query @ '' OR description:'' @ quoted query
                  @ '' OR brand:'' @ quoted query
         in (SP_default, [Text sq], Some sq)))"

text \<open>
  \<open>searchQuery || query\<close>: in the \<open>boolean\<close> case \<open>searchQuery\<close> is the rewritten query,
  which the model does not compute; an empty \<open>searchQuery\<close> gives the query.
\<close>

definition runParadeSearch :: "pool \<Rightarrow> string \<Rightarrow> string \<Rightarrow> string + QueryResult" where
  "runParadeSearch paradePool query searchType =
     (case paradeSearchCase query searchType of
        (statement, ps, sq) \<Rightarrow>
          (case paradePool statement ps of
             Inl msg \<Rightarrow> Inl msg
           | Inr a \<Rightarrow>
               Inr \<lparr>results = rows a, duration = elapsedMs a, rcount = rowCount a, error = None,
                    actualQuery = Some statement, params = ps,
                    searchQuery = (case sq of None \<Rightarrow> None
                                   | Some s \<Rightarrow> if s = [] then Some query else Some s),
                    engine = Some ''ParadeDB BM25 Search''\<rparr>))"

subsection \<open>server.js: the handler of POST /api/benchmark\<close>

record benchmark_body =
  vanilla :: QueryResult
  vanillaScore :: real
  vanillaNDCG :: real
  parade :: QueryResult
  paradeScore :: real
  paradeNDCG :: real
  accuracyWinner :: string
  accuracyDiff :: real
  speedup :: "real option"

datatype response = Status400 string | Status200 benchmark_body | Status500 exn

text \<open>
  The request body gives \<open>query\<close> and \<open>searchType\<close>, either of which may be absent. The
  numbers of the response are kept as numbers (the source formats them with \<open>toFixed\<close>);
  \<open>speedup\<close> is \<open>None\<close> for \<open>'N/A'\<close>. A SyntaxError of a scorer reaches the outer
  \<open>catch\<close>, which answers with status 500.
\<close>

definition benchmarkHandler ::
  "regexp \<Rightarrow> pool \<Rightarrow> pool \<Rightarrow> string option \<Rightarrow> string option \<Rightarrow> response" where
  "benchmarkHandler rx vanillaPool paradePool bodyQuery bodySearchType =
     (let query = orEmpty bodyQuery;
          searchType = (case bodySearchType of None \<Rightarrow> ''fulltext'' | Some t \<Rightarrow> t)
      in if query = [] then Status400 ''Query is required''
         else
           let v = (case runVanillaSearch vanillaPool query searchType of
                      Inl msg \<Rightarrow> errorResult msg | Inr r \<Rightarrow> r);
               p = (case runParadeSearch paradePool query searchType of
                      Inl msg \<Rightarrow> errorResult msg | Inr r \<Rightarrow> r)
           in (case calculateRelevanceScore rx (Some (results v)) query of
                 None \<Rightarrow> Status500 SyntaxError
               | Some vRel \<Rightarrow>
                   (case calculateRelevanceScore rx (Some (results p)) query of
                      None \<Rightarrow> Status500 SyntaxError
                    | Some pRel \<Rightarrow>
                        let vN = calculateNDCG (Some (results v)) query;
                            pN = calculateNDCG (Some (results p)) query
                        in Status200
                             \<lparr>vanilla = v, vanillaScore = vRel, vanillaNDCG = vN,
                              parade = p, paradeScore = pRel, paradeNDCG = pN,
                              accuracyWinner =
                                (if vN > pN + 5 then ''vanilla''
                                 else if pN > vN + 5 then ''parade'' else ''tie''),
                              accuracyDiff =
                                (if vN > pN + 5 then vN - pN
                                 else if pN > vN + 5 then pN - vN else 0),
                              speedup =
                                (if duration v > 0 \<and> duration p > 0
                                 then Some (real (duration v) / real (duration p))
                                 else None)\<rparr>)))"

section \<open>Auxiliary definitions for the proofs\<close>

text \<open>The sum that \<open>dcgLoop\<close> adds to its accumulator.\<close>

fun dcgFrom :: "nat \<Rightarrow> real list \<Rightarrow> real" where
  "dcgFrom i [] = 0"
| "dcgFrom i (s # ss) = (2 powr s - 1) / log 2 (real (i + 1) + 1) + dcgFrom (Suc i) ss"

text \<open>
  The point scheme in the words of the specification: one point for a substring match and
  two more when the term also matches as a whole word.
\<close>

definition specPoints :: "bool \<Rightarrow> bool \<Rightarrow> real" where
  "specPoints substringMatch wholeWord =
     (if substringMatch then 1 + (if wholeWord then 2 else 0) else 0)"

text \<open>Rows and result sets of the examples.\<close>

definition samsungRow :: result_row where
  "samsungRow = \<lparr>title = Some ''Samsung Galaxy Phone'', description = None, brand = None\<rparr>"

definition appleRow :: result_row where
  "appleRow = \<lparr>title = Some ''Apple Watch'', description = None, brand = None\<rparr>"

definition fullRow :: result_row where
  "fullRow = \<lparr>title = Some ''Pixel'', description = Some ''a pixel phone'', brand = Some ''Pixel''\<rparr>"

definition blankRow :: result_row where
  "blankRow = \<lparr>title = None, description = None, brand = None\<rparr>"

definition idealOrder :: "result_row list" where
  "idealOrder = [fullRow, fullRow, blankRow, blankRow, blankRow, blankRow, blankRow, blankRow,
                 blankRow, blankRow, blankRow]"

definition lateOrder :: "result_row list" where
  "lateOrder = [fullRow, blankRow, blankRow, blankRow, blankRow, blankRow, blankRow, blankRow,
                blankRow, blankRow, fullRow]"

text \<open>The condition under which the scanning loop appends a record to the batch.\<close>

definition okProduct :: "Product \<Rightarrow> bool" where
  "okProduct p = (ASIN p \<noteq> [] \<and> Title p \<noteq> [])"

text \<open>The records that the scanning loop decodes, in the order of the lines.\<close>

definition parsedRecords :: "(string \<Rightarrow> Product option) \<Rightarrow> string list \<Rightarrow> Product list" where
  "parsedRecords unmarshal lines =
     List.map_filter (\<lambda>line. if line = [] then None else unmarshal (toJSONLine line)) lines"

text \<open>Products and a decoder for the examples; \<open>overlongAsin\<close> has 21 characters.\<close>

definition overlongAsin :: string where
  "overlongAsin = ''B00000000000000000002''"


definition demoProduct :: "string \<Rightarrow> string \<Rightarrow> Product" where
  "demoProduct asin ttl =
     \<lparr>ASIN = asin, Title = ttl, Description = [], Price = [], Brand = [], Categories = [],
      SalesRank = [], ImageURL = []\<rparr>"

definition demoUnmarshal :: "string \<Rightarrow> Product option" where
  "demoUnmarshal s =
     (if s = ''{'' then None
      else if s = ''untitled'' then Some (demoProduct ''B0'' [])
      else Some (demoProduct s ''Some title''))"

text \<open>The search types with a \<open>case\<close> in the benchmark script.\<close>

definition benchHandled :: "string \<Rightarrow> bool" where
  "benchHandled searchType =
     (searchType \<in> set [''fulltext'', ''boolean'', ''field'', ''fuzzy'', ''exact''])"

text \<open>
  A regular-expression engine for the examples. In a term whose only metacharacter is the
  dot, the pattern \<open>\bterm\b\<close> is valid, every other character stands for itself without
  regard to case and the dot matches any character but a line terminator; the engine answers
  the test for these terms. For every other term with a metacharacter it answers that the
  constructor throws, as JavaScript does for \<open>c++\<close> (nothing to repeat); the examples use no
  other such term.
\<close>

fun matchDot :: "bool \<Rightarrow> string \<Rightarrow> string \<Rightarrow> (bool \<times> string) option" where
  "matchDot prevW [] s = Some (prevW, s)"
| "matchDot prevW (t # ts) [] = None"
| "matchDot prevW (t # ts) (c # cs) =
     (if (if t = CHR 0x2E then c \<noteq> CHR 0x0A \<and> c \<noteq> CHR 0x0D else upperChar t = upperChar c)
      then matchDot (isWordChar c) ts cs else None)"

definition dotHere :: "string \<Rightarrow> bool \<Rightarrow> string \<Rightarrow> bool" where
  "dotHere t prevW s =
     (prevW \<noteq> nextIsWord s \<and>
      (case matchDot prevW t s of
         None \<Rightarrow> False
       | Some (lastW, rest) \<Rightarrow> lastW \<noteq> nextIsWord rest))"

fun dotScan :: "string \<Rightarrow> bool \<Rightarrow> string \<Rightarrow> bool" where
  "dotScan t prevW [] = dotHere t prevW []"
| "dotScan t prevW (c # cs) = (dotHere t prevW (c # cs) \<or> dotScan t (isWordChar c) cs)"

definition demoRegExp :: regexp where
  "demoRegExp = (\<lambda>t s. if \<forall>c \<in> set t. c \<in> set regexMeta \<longrightarrow> c = CHR 0x2E
                        then Some (dotScan t False s) else None)"

text \<open>A query all of whose search terms are read literally by the word-boundary pattern.\<close>

definition literalQuery :: "string \<Rightarrow> bool" where
  "literalQuery query = (\<forall>t \<in> set (searchTermsOf query). isLiteralTerm t)"

text \<open>
  A report line that carries, for its query, what each of the two dispatchers returned and
  the relevance of the rows returned.
\<close>

definition reportsBoth :: "regexp \<Rightarrow> pool \<Rightarrow> pool \<Rightarrow> string \<Rightarrow> report_line \<Rightarrow> bool" where
  "reportsBoth rx vanillaPool paradePool searchType l =
     (case runVanillaQuery vanillaPool (line_query l) searchType of
        Inl e \<Rightarrow> False
      | Inr v \<Rightarrow>
          (case runParadeQuery paradePool (line_query l) searchType of
             Inl e \<Rightarrow> False
           | Inr p \<Rightarrow>
               vanillaMs l = duration v \<and> paradeMs l = duration p \<and>
               calculateRelevance rx (Some (results v)) (line_query l) = Some (vanillaRelevance l) \<and>
               calculateRelevance rx (Some (results p)) (line_query l) = Some (paradeRelevance l)))"

text \<open>An engine that refuses every query, and one that answers every query alike.\<close>

definition downPool :: pool where
  "downPool = (\<lambda>statement ps. Inl ''connection refused'')"

definition demoPool :: pool where
  "demoPool = (\<lambda>statement ps. Inr \<lparr>rows = [samsungRow, appleRow], rowCount = 2, elapsedMs = 7\<rparr>)"

text \<open>The \<open>searchQuery\<close> of the default case of \<open>runParadeSearch\<close>.\<close>

definition phraseQuery :: "string \<Rightarrow> string" where
  "phraseQuery query =
     ''title:'' @ quoted query @ '' OR description:'' @ quoted query @ '' OR brand:'' @ quoted query"

section \<open>Lemmas on the scorers\<close>

lemmas string_eval = upperLetters_def lowerLetters_def digitChars_def lowerChar_def upperChar_def
  toLowerCase_def isSpace_def isWordChar_def orEmpty_def splitWs_def splitChar_def regexMeta_def
  isLiteralTerm_def nextIsWord_def matchHere_def wordBoundaryTest_def

lemmas scorer_eval = haystack_def matchTerm_def titleBonusOf_def resultScore_def
  calculateRelevanceScore_def benchHaystack_def benchMatchTerm_def calculateRelevance_def
  stripPunctuation_def searchTermsOf_def mathRound_def termGain_def relevanceOf_def

subsection \<open>The discounted sum and its rearrangement\<close>

lemma dcgLoop_dcgFrom: "dcgLoop i acc ss = acc + dcgFrom i ss"
  by (induction ss arbitrary: i acc) simp_all

lemma discount_pos: "0 < log 2 (real (i + 1) + 1)"
  by (simp add: zero_less_log_cancel_iff)

lemma discount_less: "log 2 (real (i + 1) + 1) < log 2 (real (Suc i + 1) + 1)"
  by (simp add: log_less_cancel_iff)

lemma gain_nonneg: "0 \<le> s \<Longrightarrow> 0 \<le> 2 powr s - (1::real)"
  using powr_mono [of 0 s "2::real"] by simp

lemma gain_pos: "0 < s \<Longrightarrow> 0 < 2 powr s - (1::real)"
  using powr_less_mono [of 0 s "2::real"] by simp

lemma dcgFrom_nonneg: "\<forall>s \<in> set ss. 0 \<le> s \<Longrightarrow> 0 \<le> dcgFrom i ss"
proof (induction ss arbitrary: i)
  case Nil
  then show ?case by simp
next
  case (Cons s ss)
  have "0 \<le> (2 powr s - 1) / log 2 (real (i + 1) + 1)"
    using Cons.prems gain_nonneg [of s] discount_pos [of i] by simp
  moreover have "0 \<le> dcgFrom (Suc i) ss"
    using Cons by simp
  ultimately show ?case by simp
qed

lemma dcgFrom_pos:
  "\<forall>s \<in> set ss. 0 \<le> s \<Longrightarrow> \<exists>s \<in> set ss. 0 < s \<Longrightarrow> 0 < dcgFrom i ss"
proof (induction ss arbitrary: i)
  case Nil
  then show ?case by simp
next
  case (Cons s ss)
  have tl_nonneg: "0 \<le> dcgFrom (Suc i) ss"
    using Cons.prems(1) dcgFrom_nonneg [of ss "Suc i"] by simp
  show ?case
  proof (cases "0 < s")
    case True
    then have "0 < (2 powr s - 1) / log 2 (real (i + 1) + 1)"
      using gain_pos [of s] discount_pos [of i] by simp
    with tl_nonneg show ?thesis by simp
  next
    case False
    with Cons.prems have "\<exists>s \<in> set ss. 0 < s" by auto
    with Cons have "0 < dcgFrom (Suc i) ss" by simp
    moreover have "0 \<le> (2 powr s - 1) / log 2 (real (i + 1) + 1)"
      using Cons.prems(1) gain_nonneg [of s] discount_pos [of i] by simp
    ultimately show ?thesis by simp
  qed
qed

lemma dcgFrom_zero: "\<forall>s \<in> set ss. s = 0 \<Longrightarrow> dcgFrom i ss = 0"
  by (induction ss arbitrary: i) simp_all

text \<open>Exchanging a smaller score with a larger one that follows it raises the sum.\<close>

lemma swap_less:
  fixes x z :: real
  assumes "x < z"
  shows "(2 powr x - 1) / log 2 (real (i + 1) + 1) + (2 powr z - 1) / log 2 (real (Suc i + 1) + 1)
       < (2 powr z - 1) / log 2 (real (i + 1) + 1) + (2 powr x - 1) / log 2 (real (Suc i + 1) + 1)"
proof -
  define a where "a = log 2 (real (i + 1) + 1)"
  define b where "b = log 2 (real (Suc i + 1) + 1)"
  define gx where "gx = 2 powr x - (1::real)"
  define gz where "gz = 2 powr z - (1::real)"
  have a: "0 < a" and ab: "a < b"
    unfolding a_def b_def using discount_pos discount_less by blast+
  have g: "gx < gz"
    unfolding gx_def gz_def using assms powr_less_mono [of x z "2::real"] by simp
  have "1 / b < 1 / a" using a ab by (simp add: frac_less2)
  then have "0 < (gz - gx) * (1 / a - 1 / b)" using g by simp
  then have "gx / a + gz / b < gz / a + gx / b" by (simp add: algebra_simps diff_divide_distrib)
  then show ?thesis unfolding a_def b_def gx_def gz_def .
qed

lemma insort_ge: "dcgFrom i (x # zs) \<le> dcgFrom i (insort_key uminus x zs)"
proof (induction zs arbitrary: i)
  case Nil
  then show ?case by simp
next
  case (Cons z zs)
  show ?case
  proof (cases "z \<le> x")
    case True
    then show ?thesis by simp
  next
    case False
    then have xz: "x < z" by simp
    have "dcgFrom i (x # z # zs) \<le> dcgFrom i (z # x # zs)"
      using swap_less [OF xz, of i] by simp
    also have "\<dots> \<le> dcgFrom i (z # insort_key uminus x zs)"
      using Cons.IH [of "Suc i"] by simp
    finally show ?thesis using False by simp
  qed
qed

lemma insort_gt: "x < z \<Longrightarrow> dcgFrom i (x # z # zs) < dcgFrom i (insort_key uminus x (z # zs))"
proof -
  assume xz: "x < z"
  have "dcgFrom i (x # z # zs) < dcgFrom i (z # x # zs)"
    using swap_less [OF xz, of i] by simp
  also have "\<dots> \<le> dcgFrom i (z # insort_key uminus x zs)"
    using insort_ge [of "Suc i" x zs] by simp
  finally show ?thesis using xz by simp
qed

lemma dcgFrom_le_sorted: "dcgFrom i xs \<le> dcgFrom i (sortDescending xs)"
proof (induction xs arbitrary: i)
  case Nil
  then show ?case by (simp add: sortDescending_def)
next
  case (Cons x xs)
  have "dcgFrom i (x # xs) \<le> dcgFrom i (x # sortDescending xs)"
    using Cons.IH [of "Suc i"] by simp
  also have "\<dots> \<le> dcgFrom i (insort_key uminus x (sortDescending xs))"
    by (rule insort_ge)
  finally show ?case by (simp add: sortDescending_def sort_key_simps)
qed

lemma descending_iff: "sorted (map uminus xs) = sorted_wrt (\<ge>) (xs :: real list)"
  by (simp add: sorted_map)

lemma sortDescending_id: "sorted_wrt (\<ge>) xs \<Longrightarrow> sortDescending xs = xs"
  by (simp add: sortDescending_def sort_key_id_if_sorted descending_iff)

lemma sortDescending_perm: "mset xs = mset ys \<Longrightarrow> sortDescending xs = sortDescending ys"
  unfolding sortDescending_def by (rule sort_key_eq_sort_key) (simp_all add: inj_on_def)

lemma sortDescending_sorted: "sorted_wrt (\<ge>) (sortDescending xs)"
  using sorted_sort_key [of uminus xs] unfolding sortDescending_def descending_iff .

lemma dcgFrom_less_sorted:
  "\<not> sorted_wrt (\<ge>) xs \<Longrightarrow> dcgFrom i xs < dcgFrom i (sortDescending xs)"
proof (induction xs arbitrary: i)
  case Nil
  then show ?case by simp
next
  case (Cons x xs)
  show ?case
  proof (cases "sorted_wrt (\<ge>) xs")
    case False
    then have "dcgFrom (Suc i) xs < dcgFrom (Suc i) (sortDescending xs)"
      by (rule Cons.IH)
    then have "dcgFrom i (x # xs) < dcgFrom i (x # sortDescending xs)" by simp
    also have "\<dots> \<le> dcgFrom i (insort_key uminus x (sortDescending xs))"
      by (rule insort_ge)
    finally show ?thesis by (simp add: sortDescending_def sort_key_simps)
  next
    case True
    with Cons.prems obtain y where y: "y \<in> set xs" "x < y" by auto
    then obtain z zs where xs: "xs = z # zs" by (cases xs) auto
    with True y have "y \<le> z" by auto
    with y have xz: "x < z" by simp
    have "sortDescending xs = xs" using True by (rule sortDescending_id)
    then have "sortDescending (x # xs) = insort_key uminus x (z # zs)"
      by (simp add: sortDescending_def sort_key_simps xs)
    then show ?thesis using insort_gt [OF xz, of i zs] xs by simp
  qed
qed

subsection \<open>Relevance values, DCG and IDCG\<close>

lemma termGain_ge: "score \<le> termGain r score term"
  by (simp add: termGain_def Let_def)

lemma foldl_termGain_ge: "acc \<le> foldl (termGain r) acc qterms"
proof (induction qterms arbitrary: acc)
  case Nil
  then show ?case by simp
next
  case (Cons t ts)
  have "acc \<le> termGain r acc t" by (rule termGain_ge)
  also have "\<dots> \<le> foldl (termGain r) (termGain r acc t) ts" by (rule Cons.IH)
  finally show ?case by simp
qed

lemma relevanceOf_nonneg: "0 \<le> relevanceOf qterms r"
  using foldl_termGain_ge [of 0 r qterms] by (simp add: relevanceOf_def)

lemma relevanceScores_nonneg: "\<forall>s \<in> set (relevanceScores k rs q). 0 \<le> s"
  by (auto simp: relevanceScores_def relevanceOf_nonneg)

lemma set_sortDescending: "set (sortDescending xs) = set xs"
  by (simp add: sortDescending_def)

lemma dcgOf_nonneg: "0 \<le> dcgOf k rs q"
  using dcgFrom_nonneg [OF relevanceScores_nonneg] by (simp add: dcgOf_def dcgLoop_dcgFrom)

lemma dcgOf_le_idcgOf: "dcgOf k rs q \<le> idcgOf k rs q"
  by (simp add: dcgOf_def idcgOf_def dcgLoop_dcgFrom dcgFrom_le_sorted)

lemma idcgOf_pos: "\<exists>s \<in> set (relevanceScores k rs q). 0 < s \<Longrightarrow> 0 < idcgOf k rs q"
  using dcgFrom_pos [of "sortDescending (relevanceScores k rs q)" 0] relevanceScores_nonneg [of k rs q]
  by (simp add: idcgOf_def dcgLoop_dcgFrom set_sortDescending)

lemma ndcg_k_range: "0 \<le> calculateNDCG_k R q k \<and> calculateNDCG_k R q k \<le> 100"
proof (cases R)
  case None
  then show ?thesis by (simp add: calculateNDCG_k_def)
next
  case (Some rs)
  show ?thesis
  proof (cases "rs = [] \<or> idcgOf k rs q = 0")
    case True
    with Some show ?thesis by (auto simp: calculateNDCG_k_def Let_def)
  next
    case False
    have d: "0 \<le> dcgOf k rs q" by (rule dcgOf_nonneg)
    have le: "dcgOf k rs q \<le> idcgOf k rs q" by (rule dcgOf_le_idcgOf)
    with d False have pos: "0 < idcgOf k rs q" by simp
    define ratio where "ratio = dcgOf k rs q / idcgOf k rs q"
    have "0 \<le> ratio" and "ratio \<le> 1" using d le pos by (simp_all add: ratio_def)
    then have "0 \<le> ratio * 100" and "ratio * 100 \<le> 100" by simp_all
    then show ?thesis using Some False by (simp add: calculateNDCG_k_def Let_def ratio_def)
  qed
qed

lemma ndcg_k_ideal:
  assumes "rs \<noteq> []" "sorted_wrt (\<ge>) (relevanceScores k rs q)" "0 < idcgOf k rs q"
  shows "calculateNDCG_k (Some rs) q k = 100"
proof -
  have "dcgOf k rs q = idcgOf k rs q"
    using assms(2) by (simp add: dcgOf_def idcgOf_def sortDescending_id)
  with assms(1,3) show ?thesis by (simp add: calculateNDCG_k_def Let_def)
qed

lemma ndcg_k_unsorted:
  assumes "\<not> sorted_wrt (\<ge>) (relevanceScores k rs q)"
  shows "calculateNDCG_k (Some rs) q k < 100"
proof -
  have ne: "rs \<noteq> []" using assms by (auto simp: relevanceScores_def)
  have lt: "dcgOf k rs q < idcgOf k rs q"
    using dcgFrom_less_sorted [OF assms, of 0] by (simp add: dcgOf_def idcgOf_def dcgLoop_dcgFrom)
  have "0 \<le> dcgOf k rs q" by (rule dcgOf_nonneg)
  with lt have pos: "0 < idcgOf k rs q" by simp
  define ratio where "ratio = dcgOf k rs q / idcgOf k rs q"
  have "ratio < 1" using lt pos by (simp add: ratio_def)
  then have "ratio * 100 < 100" by simp
  with ne pos show ?thesis by (simp add: calculateNDCG_k_def Let_def ratio_def)
qed

lemma relevanceScores_perm:
  assumes "mset rs' = mset rs" "length rs \<le> k"
  shows "mset (relevanceScores k rs' q) = mset (relevanceScores k rs q)"
proof -
  have "length rs' = length rs" using assms(1) by (rule mset_eq_length)
  with assms show ?thesis by (simp add: relevanceScores_def)
qed

lemma rel_fullRow: "relevanceOf (splitWs (toLowerCase ''pixel'')) fullRow = 1"
  by (simp add: fullRow_def scorer_eval string_eval)

lemma rel_blankRow: "relevanceOf (splitWs (toLowerCase ''pixel'')) blankRow = 0"
  by (simp add: blankRow_def scorer_eval string_eval)

subsection \<open>The loops over the query terms\<close>

lemma matchTerm_loop_gen:
  "forEachOpt (matchTerm rx hay) (a, b) qterms =
     (if \<forall>t \<in> set qterms. includes_str hay t \<longrightarrow> wordBoundaryTest rx t hay \<noteq> None
      then Some (a + real (length (filter (includes_str hay) qterms)),
                 b + (\<Sum>t\<leftarrow>qterms. if includes_str hay t
                                  then (if wordBoundaryTest rx t hay = Some True then 2 else 1)
                                  else 0))
      else None)"
proof (induction qterms arbitrary: a b)
  case Nil
  then show ?case by simp
next
  case (Cons t ts)
  show ?case
  proof (cases "includes_str hay t")
    case False
    then have step: "matchTerm rx hay (a, b) t = Some (a, b)" by (simp add: matchTerm_def)
    show ?thesis using Cons.IH [of a b] False by (simp add: step)
  next
    case True
    show ?thesis
    proof (cases "wordBoundaryTest rx t hay")
      case None
      with True have step: "matchTerm rx hay (a, b) t = None" by (simp add: matchTerm_def)
      show ?thesis using True None by (simp add: step)
    next
      case (Some wb)
      show ?thesis
      proof (cases wb)
        case yes: True
        with Some have w: "wordBoundaryTest rx t hay = Some True" by simp
        with True have step: "matchTerm rx hay (a, b) t = Some (a + 1, b + 2)"
          by (simp add: matchTerm_def)
        show ?thesis using Cons.IH [of "a + 1" "b + 2"] True by (auto simp: step w)
      next
        case no: False
        with Some have w: "wordBoundaryTest rx t hay = Some False" by simp
        with True have step: "matchTerm rx hay (a, b) t = Some (a + 1, b + 1)"
          by (simp add: matchTerm_def)
        show ?thesis using Cons.IH [of "a + 1" "b + 1"] True by (auto simp: step w)
      qed
    qed
  qed
qed

lemma benchMatchTerm_loop_gen:
  "forEachOpt (benchMatchTerm rx hay) b qterms =
     (if \<forall>t \<in> set qterms. includes_str hay t \<longrightarrow> wordBoundaryTest rx t hay \<noteq> None
      then Some (b + (\<Sum>t\<leftarrow>qterms. if includes_str hay t
                                  then (if wordBoundaryTest rx t hay = Some True then 2 + 3 else 2)
                                  else 0))
      else None)"
proof (induction qterms arbitrary: b)
  case Nil
  then show ?case by simp
next
  case (Cons t ts)
  show ?case
  proof (cases "includes_str hay t")
    case False
    then have step: "benchMatchTerm rx hay b t = Some b" by (simp add: benchMatchTerm_def)
    show ?thesis using Cons.IH [of b] False by (simp add: step)
  next
    case True
    show ?thesis
    proof (cases "wordBoundaryTest rx t hay")
      case None
      with True have step: "benchMatchTerm rx hay b t = None" by (simp add: benchMatchTerm_def)
      show ?thesis using True None by (simp add: step)
    next
      case (Some wb)
      show ?thesis
      proof (cases wb)
        case yes: True
        with Some have w: "wordBoundaryTest rx t hay = Some True" by simp
        with True have step: "benchMatchTerm rx hay b t = Some ((b + 2) + 3)"
          by (simp add: benchMatchTerm_def)
        show ?thesis using Cons.IH [of "(b + 2) + 3"] True by (auto simp: step w)
      next
        case no: False
        with Some have w: "wordBoundaryTest rx t hay = Some False" by simp
        with True have step: "benchMatchTerm rx hay b t = Some (b + 2)"
          by (simp add: benchMatchTerm_def)
        show ?thesis using Cons.IH [of "b + 2"] True by (auto simp: step w)
      qed
    qed
  qed
qed

lemma titleBonus_fold:
  "foldl (\<lambda>titleBonus term. if includes_str ttl term then titleBonus + 3 else titleBonus) acc qterms
     = acc + 3 * real (length (filter (includes_str ttl) qterms))"
  by (induction qterms arbitrary: acc) simp_all

lemma titleBonusOf_count:
  "titleBonusOf qterms r
     = 3 * real (length (filter (includes_str (toLowerCase (orEmpty (title r)))) qterms))"
  using titleBonus_fold [of "toLowerCase (orEmpty (title r))" 0 qterms]
  by (simp add: titleBonusOf_def)

lemma wordBoundaryTest_literal:
  "isLiteralTerm t \<Longrightarrow> wordBoundaryTest rx t hay = Some (wbScan t False hay)"
  by (simp add: wordBoundaryTest_def)

lemma matchTerm_loop:
  "\<forall>t \<in> set qterms. isLiteralTerm t \<Longrightarrow>
   forEachOpt (matchTerm rx hay) (a, b) qterms =
     Some (a + real (length (filter (includes_str hay) qterms)),
           b + (\<Sum>t\<leftarrow>qterms. if includes_str hay t then (if wbScan t False hay then 2 else 1) else 0))"
  by (induction qterms arbitrary: a b) (simp_all add: matchTerm_def wordBoundaryTest_def)

lemma benchMatchTerm_loop:
  "\<forall>t \<in> set qterms. isLiteralTerm t \<Longrightarrow>
   forEachOpt (benchMatchTerm rx hay) b qterms =
     Some (b + (\<Sum>t\<leftarrow>qterms. if includes_str hay t then (if wbScan t False hay then 2 + 3 else 2) else 0))"
  by (induction qterms arbitrary: b) (simp_all add: benchMatchTerm_def wordBoundaryTest_def)

lemma scoreResults_total:
  "\<forall>t \<in> set qterms. isLiteralTerm t \<Longrightarrow> \<exists>s. scoreResults rx qterms pos acc rs = Some s"
proof (induction rs arbitrary: pos acc)
  case Nil
  then show ?case by simp
next
  case (Cons r rs)
  obtain s where "resultScore rx qterms pos r = Some s"
    using matchTerm_loop [OF Cons.prems, of rx "haystack r" 0 0] by (simp add: resultScore_def Let_def)
  then show ?case using Cons.IH [OF Cons.prems] by simp
qed

lemma calculateRelevanceScore_total:
  "\<forall>t \<in> set (splitWs (toLowerCase query)). isLiteralTerm t \<Longrightarrow>
   \<exists>s. calculateRelevanceScore rx rs query = Some s"
proof (cases rs)
  case None
  then show ?thesis by (simp add: calculateRelevanceScore_def)
next
  case (Some xs)
  assume "\<forall>t \<in> set (splitWs (toLowerCase query)). isLiteralTerm t"
  then obtain s where "scoreResults rx (splitWs (toLowerCase query)) 0 0 xs = Some s"
    using scoreResults_total by blast
  with Some show ?thesis by (simp add: calculateRelevanceScore_def Let_def)
qed

lemma benchScoreResults_total:
  "\<forall>t \<in> set qterms. isLiteralTerm t \<Longrightarrow> \<exists>s. benchScoreResults rx qterms pos acc rs = Some s"
proof (induction rs arbitrary: pos acc)
  case Nil
  then show ?case by simp
next
  case (Cons r rs)
  show ?case
    using benchMatchTerm_loop [OF Cons.prems, of rx "benchHaystack r" 0] Cons.IH [OF Cons.prems]
    by (simp add: Let_def)
qed

lemma calculateRelevance_total:
  "\<forall>t \<in> set (searchTermsOf query). isLiteralTerm t \<Longrightarrow> \<exists>s. calculateRelevance rx rs query = Some s"
proof (cases rs)
  case None
  then show ?thesis by (simp add: calculateRelevance_def)
next
  case (Some xs)
  assume "\<forall>t \<in> set (searchTermsOf query). isLiteralTerm t"
  then obtain s where "benchScoreResults rx (searchTermsOf query) 0 0 xs = Some s"
    using benchScoreResults_total by blast
  with Some show ?thesis by (simp add: calculateRelevance_def)
qed

lemma runVanillaQuery_returns:
  "benchHandled searchType \<Longrightarrow> \<exists>r. runVanillaQuery vp query searchType = Inr r"
  by (auto simp: benchHandled_def runVanillaQuery_def vanillaQueryCase_def Let_def split: sum.splits)

lemma runParadeQuery_returns:
  "benchHandled searchType \<Longrightarrow> \<exists>r. runParadeQuery pp query searchType = Inr r"
  by (auto simp: benchHandled_def runParadeQuery_def paradeQueryCase_def Let_def split: sum.splits)

lemma queryLoop_completes:
  "benchHandled searchType \<Longrightarrow> \<forall>q \<in> set qs. literalQuery q \<Longrightarrow>
   \<forall>l \<in> set printed. reportsBoth rx vp pp searchType l \<Longrightarrow>
   \<exists>vt' pt' printed'. queryLoop rx vp pp searchType qs (vt, pt, printed) = Inr (vt', pt', printed') \<and>
      map line_query printed' = map line_query printed @ qs \<and>
      (\<forall>l \<in> set printed'. reportsBoth rx vp pp searchType l)"
proof (induction qs arbitrary: vt pt printed)
  case Nil
  then show ?case by simp
next
  case (Cons q qs)
  obtain vr where vr: "runVanillaQuery vp q searchType = Inr vr"
    using runVanillaQuery_returns [OF Cons.prems(1)] by blast
  obtain pr where pr: "runParadeQuery pp q searchType = Inr pr"
    using runParadeQuery_returns [OF Cons.prems(1)] by blast
  have lit: "\<forall>t \<in> set (searchTermsOf q). isLiteralTerm t"
    using Cons.prems(2) by (simp add: literalQuery_def)
  obtain vrel where vrel: "calculateRelevance rx (Some (results vr)) q = Some vrel"
    using calculateRelevance_total [OF lit] by blast
  obtain prel where prel: "calculateRelevance rx (Some (results pr)) q = Some prel"
    using calculateRelevance_total [OF lit] by blast
  have rest: "\<forall>q \<in> set qs. literalQuery q" using Cons.prems(2) by simp
  define l where "l = \<lparr>line_query = q, vanillaMs = duration vr, vanillaRelevance = vrel,
                     paradeMs = duration pr, paradeRelevance = prel\<rparr>"
  have "reportsBoth rx vp pp searchType l"
    by (simp add: reportsBoth_def l_def vr pr vrel prel)
  with Cons.prems(3) have inv: "\<forall>x \<in> set (printed @ [l]). reportsBoth rx vp pp searchType x"
    by simp
  show ?case
    using Cons.IH [OF Cons.prems(1) rest inv, of "addTotals vt vr vrel" "addTotals pt pr prel"]
    by (simp add: vr pr vrel prel l_def)
qed

lemma readLoop_completes:
  "\<forall>(searchType, qs) \<in> set tq. benchHandled searchType \<and> (\<forall>q \<in> set (take 5 qs). literalQuery q) \<Longrightarrow>
   \<exists>out. readLoop rx vp pp tq = Inr out \<and>
     map (\<lambda>(searchType, vt, pt, printed). (searchType, map line_query printed)) out
       = map (\<lambda>(searchType, qs). (searchType, take 5 qs)) tq \<and>
     (\<forall>(searchType, vt, pt, printed) \<in> set out. \<forall>l \<in> set printed. reportsBoth rx vp pp searchType l)"
proof (induction tq)
  case Nil
  then show ?case by simp
next
  case (Cons entry tq)
  obtain searchType qs where e: "entry = (searchType, qs)" by (cases entry)
  have h: "benchHandled searchType" and l: "\<forall>q \<in> set (take 5 qs). literalQuery q"
    using Cons.prems e by auto
  obtain vt' pt' printed' where
    q: "queryLoop rx vp pp searchType (take 5 qs) (zeroTotals, zeroTotals, []) = Inr (vt', pt', printed')"
    and m: "map line_query printed' = take 5 qs"
    and b: "\<forall>l \<in> set printed'. reportsBoth rx vp pp searchType l"
    using queryLoop_completes [OF h l, of "[]" rx vp pp zeroTotals zeroTotals] by auto
  have "\<forall>(searchType, qs) \<in> set tq. benchHandled searchType \<and> (\<forall>q \<in> set (take 5 qs). literalQuery q)"
    using Cons.prems by simp
  from Cons.IH [OF this] obtain out where "readLoop rx vp pp tq = Inr out"
    and "map (\<lambda>(searchType, vt, pt, printed). (searchType, map line_query printed)) out
       = map (\<lambda>(searchType, qs). (searchType, take 5 qs)) tq"
    and "\<forall>(searchType, vt, pt, printed) \<in> set out. \<forall>l \<in> set printed. reportsBoth rx vp pp searchType l"
    by blast
  then show ?case using q m b e by simp
qed

lemma testQueries_ok:
  "\<forall>(searchType, qs) \<in> set testQueries.
     benchHandled searchType \<and> (\<forall>q \<in> set (take 5 qs). literalQuery q)"
  by code_simp

lemma reportsBoth_down:
  "reportsBoth rx downPool demoPool searchType l \<Longrightarrow> vanillaMs l = 0 \<and> paradeMs l = 7"
  by (auto simp: reportsBoth_def runVanillaQuery_def runParadeQuery_def downPool_def demoPool_def
      errorResult_def benchResult_def split: option.splits sum.splits prod.splits)

section \<open>Lemmas on the ingestion\<close>

lemma execLoop_recordStore:
  "execLoop (recordStore rejects) tx logged ps =
     (tx @ map toRow (filter (\<lambda>p. \<not> rejects (toRow p)) ps),
      logged @ map (\<lambda>p. (ASIN p, ''rejected'')) (filter (\<lambda>p. rejects (toRow p)) ps))"
  by (induction ps arbitrary: tx logged) (simp_all add: recordStore_def)

lemma insertBatch_recordStore:
  "insertBatch (recordStore rejects) db ps =
     (None, db @ map toRow (filter (\<lambda>p. \<not> rejects (toRow p)) ps),
      map (\<lambda>p. (ASIN p, ''rejected'')) (filter (\<lambda>p. rejects (toRow p)) ps))"
proof (cases ps)
  case Nil
  then show ?thesis by (simp add: insertBatch_def)
next
  case (Cons p ps')
  have "execLoop (recordStore rejects) [] [] ps =
     (map toRow (filter (\<lambda>p. \<not> rejects (toRow p)) ps),
      map (\<lambda>p. (ASIN p, ''rejected'')) (filter (\<lambda>p. rejects (toRow p)) ps))"
    using execLoop_recordStore [of rejects "[]" "[]" ps] by simp
  moreover have "db_Begin (recordStore rejects) db = Inr []"
    and "tx_Prepare (recordStore rejects) [] = Inr []"
    and "\<And>tx. tx_Commit (recordStore rejects) db tx = (None, db @ tx)"
    by (simp_all add: recordStore_def)
  ultimately show ?thesis using Cons by (simp add: insertBatch_def)
qed

text \<open>On PostgreSQL a rejected statement aborts the transaction.\<close>

lemma execLoop_pgStore_aborted:
  "execLoop (pgStore rejects) (inserted, True) logged ps =
     ((inserted, True),
      logged @ map (\<lambda>p. (ASIN p, ''pq: current transaction is aborted'')) ps)"
  by (induction ps arbitrary: logged) (simp_all add: pgStore_def)

lemma execLoop_pgStore_clean:
  "\<forall>p \<in> set ps. \<not> rejects (toRow p) \<Longrightarrow>
   execLoop (pgStore rejects) (inserted, False) logged ps = ((inserted @ map toRow ps, False), logged)"
  by (induction ps arbitrary: inserted) (simp_all add: pgStore_def)

lemma execLoop_pgStore_failed:
  "\<exists>p \<in> set ps. rejects (toRow p) \<Longrightarrow>
   \<exists>inserted' logged'.
     execLoop (pgStore rejects) (inserted, False) logged ps = ((inserted', True), logged') \<and>
     length logged' = length logged + length (dropWhile (\<lambda>p. \<not> rejects (toRow p)) ps)"
proof (induction ps arbitrary: inserted)
  case Nil
  then show ?case by simp
next
  case (Cons p ps)
  show ?case
  proof (cases "rejects (toRow p)")
    case True
    then show ?thesis
      by (simp add: pgStore_def execLoop_pgStore_aborted [unfolded pgStore_def])
  next
    case False
    with Cons.prems have "\<exists>p \<in> set ps. rejects (toRow p)" by simp
    from Cons.IH [OF this, of "inserted @ [toRow p]"] False show ?thesis
      by (simp add: pgStore_def)
  qed
qed

lemma insertBatch_pgStore_failed:
  assumes "\<exists>p \<in> set products. rejects (toRow p)"
  shows "fst (insertBatch (pgStore rejects) db products)
           = Some ''pq: Could not complete operation in a failed transaction''"
    and "fst (snd (insertBatch (pgStore rejects) db products)) = db"
    and "length (snd (snd (insertBatch (pgStore rejects) db products)))
           = length (dropWhile (\<lambda>p. \<not> rejects (toRow p)) products)"
proof -
  obtain inserted' logged' where
    e: "execLoop (pgStore rejects) ([], False) [] products = ((inserted', True), logged')"
    and l: "length logged' = length (dropWhile (\<lambda>p. \<not> rejects (toRow p)) products)"
    using execLoop_pgStore_failed [OF assms, of "[]" "[]"] by auto
  have ne: "products \<noteq> []" using assms by auto
  have b: "db_Begin (pgStore rejects) db = Inr ([], False)"
    and p: "tx_Prepare (pgStore rejects) ([], False) = Inr ([], False)"
    and c: "tx_Commit (pgStore rejects) db (inserted', True)
              = (Some ''pq: Could not complete operation in a failed transaction'', db)"
    by (simp_all add: pgStore_def)
  have r: "insertBatch (pgStore rejects) db products
      = (Some ''pq: Could not complete operation in a failed transaction'', db, logged')"
    using ne by (simp add: insertBatch_def b p e c)
  show "fst (insertBatch (pgStore rejects) db products)
           = Some ''pq: Could not complete operation in a failed transaction''"
    and "fst (snd (insertBatch (pgStore rejects) db products)) = db"
    and "length (snd (snd (insertBatch (pgStore rejects) db products)))
           = length (dropWhile (\<lambda>p. \<not> rejects (toRow p)) products)"
    by (simp_all add: r l)
qed

lemma pgStore_no_rejection:
  assumes "\<forall>p \<in> set products. \<not> rejects (toRow p)"
  shows "insertBatch (pgStore rejects) db products = insertBatch (recordStore rejects) db products"
proof (cases "products = []")
  case True
  then show ?thesis by (simp add: insertBatch_def)
next
  case False
  have b: "db_Begin (pgStore rejects) db = Inr ([], False)"
    and p: "tx_Prepare (pgStore rejects) ([], False) = Inr ([], False)"
    and c: "\<And>inserted. tx_Commit (pgStore rejects) db (inserted, False) = (None, db @ inserted)"
    by (simp_all add: pgStore_def)
  have f: "filter (\<lambda>p. \<not> rejects (toRow p)) products = products"
    and g: "filter (\<lambda>p. rejects (toRow p)) products = []"
    using assms by (simp_all add: filter_id_conv filter_empty_conv)
  have "insertBatch (pgStore rejects) db products = (None, db @ map toRow products, [])"
    using False execLoop_pgStore_clean [OF assms, of "[]" "[]"]
    by (simp add: insertBatch_def b p c)
  then show ?thesis by (simp add: insertBatch_recordStore f g)
qed

lemma scanLoop_inv:
  "scanLoop unmarshal bsz lines (batch, cnt, sent) = (batch', cnt', sent') \<Longrightarrow>
   concat sent' @ batch' = concat sent @ batch @ filter okProduct (parsedRecords unmarshal lines) \<and>
   cnt' = cnt + of_nat (length (filter okProduct (parsedRecords unmarshal lines)))"
proof (induction lines arbitrary: batch cnt sent)
  case Nil
  then show ?case by (simp add: parsedRecords_def List.map_filter_simps)
next
  case (Cons line rest)
  show ?case
  proof (cases "line = []")
    case True
    with Cons.prems have "scanLoop unmarshal bsz rest (batch, cnt, sent) = (batch', cnt', sent')"
      by (simp add: SampleSize_def)
    from Cons.IH [OF this] True show ?thesis
      by (simp add: parsedRecords_def List.map_filter_simps)
  next
    case False
    show ?thesis
    proof (cases "unmarshal (toJSONLine line)")
      case None
      with False Cons.prems have "scanLoop unmarshal bsz rest (batch, cnt, sent) = (batch', cnt', sent')"
        by (simp add: SampleSize_def)
      from Cons.IH [OF this] False None show ?thesis
        by (simp add: parsedRecords_def List.map_filter_simps)
    next
      case (Some product)
      have pr: "parsedRecords unmarshal (line # rest) = product # parsedRecords unmarshal rest"
        using False Some by (simp add: parsedRecords_def List.map_filter_simps)
      show ?thesis
      proof (cases "okProduct product")
        case False
        with \<open>line \<noteq> []\<close> Some Cons.prems
        have "scanLoop unmarshal bsz rest (batch, cnt, sent) = (batch', cnt', sent')"
          by (auto simp: SampleSize_def okProduct_def)
        from Cons.IH [OF this] False show ?thesis by (simp add: pr)
      next
        case True
        show ?thesis
        proof (cases "bsz \<le> length (batch @ [product])")
          case full: True
          with True \<open>line \<noteq> []\<close> Some Cons.prems
          have "scanLoop unmarshal bsz rest ([], cnt + 1, sent @ [batch @ [product]]) = (batch', cnt', sent')"
            by (simp add: SampleSize_def okProduct_def)
          from Cons.IH [OF this] True show ?thesis by (simp add: pr)
        next
          case notfull: False
          with True \<open>line \<noteq> []\<close> Some Cons.prems
          have "scanLoop unmarshal bsz rest (batch @ [product], cnt + 1, sent) = (batch', cnt', sent')"
            by (simp add: SampleSize_def okProduct_def)
          from Cons.IH [OF this] True show ?thesis by (simp add: pr)
        qed
      qed
    qed
  qed
qed

lemma concat_sentBatches:
  "concat (sentBatches unmarshal bsz lines) = filter okProduct (parsedRecords unmarshal lines)"
proof -
  obtain batch cnt sent where s: "scanLoop unmarshal bsz lines ([], 0, []) = (batch, cnt, sent)"
    by (cases "scanLoop unmarshal bsz lines ([], 0, [])") auto
  from scanLoop_inv [OF s] s show ?thesis by (auto simp: sentBatches_def)
qed

lemma finalCount_eq:
  "finalCount unmarshal bsz lines = of_nat (length (filter okProduct (parsedRecords unmarshal lines)))"
proof -
  obtain batch cnt sent where s: "scanLoop unmarshal bsz lines ([], 0, []) = (batch, cnt, sent)"
    by (cases "scanLoop unmarshal bsz lines ([], 0, [])") auto
  from scanLoop_inv [OF s] s show ?thesis by (simp add: finalCount_def)
qed

lemma sint_count: "n < 2 ^ 31 \<Longrightarrow> sint (of_nat n :: 32 word) = int n"
proof -
  assume n: "n < 2 ^ 31"
  have "sint (of_nat n :: 32 word) = sint (word_of_int (int n) :: 32 word)"
    by simp
  also have "\<dots> = signed_take_bit 31 (int n)"
    by (simp only: sint_sbintrunc') simp
  also have "\<dots> = int n"
  proof (rule signed_take_bit_int_eq_self)
    show "- (2 ^ 31) \<le> int n" by simp
    show "int n < 2 ^ 31" using n by simp
  qed
  finally show ?thesis .
qed

lemma okProduct_eq: "okProduct = (\<lambda>p. ASIN p \<noteq> [] \<and> Title p \<noteq> [])"
  by (simp add: fun_eq_iff okProduct_def)

lemma runWorkers_recordStore:
  "fst (runWorkers (recordStore rejects) db batches order) =
     db @ concat (map (\<lambda>i. map toRow (filter (\<lambda>p. \<not> rejects (toRow p)) (batches ! i))) order)"
  by (induction order arbitrary: db) (simp_all add: insertBatch_recordStore split: prod.splits)

lemma sum_list_perm:
  fixes g :: "nat \<Rightarrow> nat"
  shows "mset xs = mset ys \<Longrightarrow> sum_list (map g xs) = sum_list (map g ys)"
proof -
  assume "mset xs = mset ys"
  then have "sum_mset (image_mset g (mset xs)) = sum_mset (image_mset g (mset ys))" by simp
  then show ?thesis by (simp add: sum_mset_sum_list flip: mset_map)
qed

lemma length_written:
  assumes "mset order = mset [0..<length batches]"
  shows "length (concat (map (\<lambda>i. map toRow (filter P (batches ! i))) order))
         = length (filter P (concat batches))"
proof -
  have "length (concat (map (\<lambda>i. map toRow (filter P (batches ! i))) order))
        = sum_list (map (\<lambda>i. length (filter P (batches ! i))) order)"
    by (simp add: length_concat comp_def)
  also have "\<dots> = sum_list (map (\<lambda>i. length (filter P (batches ! i))) [0..<length batches])"
    using assms by (rule sum_list_perm)
  also have "\<dots> = sum_list (map (\<lambda>b. length (filter P b)) (map (\<lambda>i. batches ! i) [0..<length batches]))"
    by (simp add: comp_def)
  also have "\<dots> = sum_list (map (\<lambda>b. length (filter P b)) batches)"
    by (simp add: map_nth)
  also have "\<dots> = length (filter P (concat batches))"
    by (induction batches) simp_all
  finally show ?thesis .
qed

section \<open>The claims\<close>

subsection \<open>C1: the query samsu against two titles\<close>

text \<open>
  Claim C1, as stated: for the query \<open>samsu\<close> and the results titled
  \<open>Samsung Galaxy Phone\<close> and \<open>Apple Watch\<close>, \<open>calculateRelevanceScore\<close> is 0 for both
  results, because the term has no substring match in either title. This fails:
  \<open>samsu\<close> is a substring of the lowercased first title and the score is not 0.
\<close>

theorem samsu_counterexample:
  "includes_str (haystack samsungRow) ''samsu'' \<and>
   calculateRelevanceScore demoRegExp (Some [samsungRow, appleRow]) ''samsu'' \<noteq> Some 0"
  by code_simp

text \<open>
  Claim C1, amended: the query has the single term \<open>samsu\<close>; it is a substring of the first
  result's text, not a whole word there, so the first result scores one point plus the title
  bonus of three, times coverage 1 and position weight 1, which is 4; the term does not occur
  in the second result, which scores 0; \<open>calculateRelevanceScore\<close> returns
  \<open>4 / (2 * 1 * 5) * 100 = 40\<close>. The term has no metacharacter, so this holds whatever
  the regular-expression engine \<open>rx\<close> does with other terms.
\<close>

theorem samsu_scores:
  "splitWs (toLowerCase ''samsu'') = [''samsu''] \<and>
   includes_str (haystack samsungRow) ''samsu'' \<and>
   wordBoundaryTest rx ''samsu'' (haystack samsungRow) = Some False \<and>
   resultScore rx [''samsu''] 0 samsungRow = Some 4 \<and>
   \<not> includes_str (haystack appleRow) ''samsu'' \<and>
   resultScore rx [''samsu''] 1 appleRow = Some 0 \<and>
   calculateRelevanceScore rx (Some [samsungRow, appleRow]) ''samsu'' = Some 40"
  by code_simp

subsection \<open>C2: the range of calculateNDCG\<close>

text \<open>
  Claim C2: for every result set and query, \<open>calculateNDCG\<close> lies between 0 and 100; it is
  exactly 100 when the relevance values of the first ten results (or of all, when there are
  fewer) are already in descending order and IDCG is positive; and it is 0 when IDCG is 0.
\<close>

theorem calculateNDCG_contract:
  "(0 \<le> calculateNDCG R q \<and> calculateNDCG R q \<le> 100) \<and>
   (rs \<noteq> [] \<and> sorted_wrt (\<ge>) (relevanceScores 10 rs q) \<and> 0 < idcgOf 10 rs q
      \<longrightarrow> calculateNDCG (Some rs) q = 100) \<and>
   (idcgOf 10 rs q = 0 \<longrightarrow> calculateNDCG (Some rs) q = 0)"
proof (intro conjI impI)
  show "0 \<le> calculateNDCG R q" and "calculateNDCG R q \<le> 100"
    using ndcg_k_range [of R q 10] by (simp_all add: calculateNDCG_def)
next
  assume "rs \<noteq> [] \<and> sorted_wrt (\<ge>) (relevanceScores 10 rs q) \<and> 0 < idcgOf 10 rs q"
  then show "calculateNDCG (Some rs) q = 100"
    using ndcg_k_ideal [of rs 10 q] by (simp add: calculateNDCG_def)
next
  assume "idcgOf 10 rs q = 0"
  then show "calculateNDCG (Some rs) q = 0"
    by (simp add: calculateNDCG_def calculateNDCG_k_def Let_def)
qed

text \<open>
  An instance of C2: a fully matching row followed by a blank row is in ideal order with
  IDCG 1 and scores 100; a single blank row has IDCG 0 and scores 0.
\<close>

theorem calculateNDCG_contract_witness:
  "([fullRow, blankRow] \<noteq> [] \<and> sorted_wrt (\<ge>) (relevanceScores 10 [fullRow, blankRow] ''pixel'')
      \<and> 0 < idcgOf 10 [fullRow, blankRow] ''pixel'')
   \<and> calculateNDCG (Some [fullRow, blankRow]) ''pixel'' = 100
   \<and> idcgOf 10 [blankRow] ''pixel'' = 0
   \<and> calculateNDCG (Some [blankRow]) ''pixel'' = 0"
proof -
  have s: "relevanceScores 10 [fullRow, blankRow] ''pixel'' = [1, 0]"
    by (simp add: relevanceScores_def rel_fullRow rel_blankRow)
  have i: "idcgOf 10 [fullRow, blankRow] ''pixel'' = 1"
    by (simp add: idcgOf_def s sortDescending_def)
  have z: "idcgOf 10 [blankRow] ''pixel'' = 0"
    by (simp add: idcgOf_def relevanceScores_def rel_blankRow sortDescending_def)
  show ?thesis
    using calculateNDCG_contract [of "Some [fullRow, blankRow]" "''pixel''" "[fullRow, blankRow]"]
      calculateNDCG_contract [of "Some [blankRow]" "''pixel''" "[blankRow]"] s i z
    by simp
qed

subsection \<open>C3: reordering a result set\<close>

text \<open>
  Claim C3, as stated: reordering a result set into any sequence worse than the ideal
  descending order strictly decreases \<open>calculateNDCG\<close>, and the permutation leaves the
  multiset of relevance values and IDCG unchanged. This fails for a result set of eleven:
  \<open>lateOrder\<close> is a permutation of \<open>idealOrder\<close> and is not in descending order, but the
  relevant row moved to the eleventh place falls outside the first ten, so that \<open>calculateNDCG\<close>
  is the same for both and IDCG differs.
\<close>

theorem ndcg_reorder_counterexample:
  "mset lateOrder = mset idealOrder \<and>
   sorted_wrt (\<ge>) (map (relevanceOf (splitWs (toLowerCase ''pixel''))) idealOrder) \<and>
   \<not> sorted_wrt (\<ge>) (map (relevanceOf (splitWs (toLowerCase ''pixel''))) lateOrder) \<and>
   calculateNDCG (Some lateOrder) ''pixel'' = calculateNDCG (Some idealOrder) ''pixel'' \<and>
   idcgOf 10 lateOrder ''pixel'' \<noteq> idcgOf 10 idealOrder ''pixel''"
proof -
  have l: "relevanceScores 10 lateOrder ''pixel'' = [1, 0, 0, 0, 0, 0, 0, 0, 0, 0]"
    by (simp add: relevanceScores_def lateOrder_def rel_fullRow rel_blankRow)
  have d: "relevanceScores 10 idealOrder ''pixel'' = [1, 1, 0, 0, 0, 0, 0, 0, 0, 0]"
    by (simp add: relevanceScores_def idealOrder_def rel_fullRow rel_blankRow)
  have il: "idcgOf 10 lateOrder ''pixel'' = 1"
    by (simp add: idcgOf_def l sortDescending_def)
  have idl: "idcgOf 10 idealOrder ''pixel'' = 1 + 1 / log 2 3"
    by (simp add: idcgOf_def d sortDescending_def)
  have "0 < log 2 (3::real)" by (simp add: zero_less_log_cancel_iff)
  then have "log 2 (3::real) \<noteq> 0" by linarith
  then have ne: "idcgOf 10 lateOrder ''pixel'' \<noteq> idcgOf 10 idealOrder ''pixel''"
    by (simp add: il idl)
  have "lateOrder \<noteq> []" by (simp add: lateOrder_def)
  then have nl: "calculateNDCG (Some lateOrder) ''pixel'' = 100"
    unfolding calculateNDCG_def by (rule ndcg_k_ideal) (simp_all add: l il)
  have "idealOrder \<noteq> []" by (simp add: idealOrder_def)
  then have ni: "calculateNDCG (Some idealOrder) ''pixel'' = 100"
    unfolding calculateNDCG_def by (rule ndcg_k_ideal) (simp_all add: d idcgOf_pos)
  have m: "mset lateOrder = mset idealOrder"
    by (simp add: lateOrder_def idealOrder_def)
  have s1: "sorted_wrt (\<ge>) (map (relevanceOf (splitWs (toLowerCase ''pixel''))) idealOrder)"
    by (simp add: idealOrder_def rel_fullRow rel_blankRow)
  have s2: "\<not> sorted_wrt (\<ge>) (map (relevanceOf (splitWs (toLowerCase ''pixel''))) lateOrder)"
    by (simp add: lateOrder_def rel_fullRow rel_blankRow)
  have eq: "calculateNDCG (Some lateOrder) ''pixel'' = calculateNDCG (Some idealOrder) ''pixel''"
    using nl ni by simp
  show ?thesis by (intro conjI m s1 s2 eq ne)
qed

text \<open>
  Claim C3, amended: whenever the relevance values of the first ten results are not in
  descending order, \<open>calculateNDCG\<close> is strictly below 100; for a result set of at most ten
  results, a permutation leaves the multiset of relevance values and IDCG unchanged; hence, for
  at most ten results, every reordering of an ideally ordered result set that is not in
  descending order scores strictly less than the ideal order, which scores 100.
\<close>

theorem ndcg_reorder_strict:
  "(\<not> sorted_wrt (\<ge>) (relevanceScores 10 rs' q) \<longrightarrow> calculateNDCG (Some rs') q < 100) \<and>
   (mset rs' = mset rs \<and> length rs \<le> 10 \<longrightarrow>
      mset (relevanceScores 10 rs' q) = mset (relevanceScores 10 rs q) \<and>
      idcgOf 10 rs' q = idcgOf 10 rs q) \<and>
   (mset rs' = mset rs \<and> length rs \<le> 10 \<and> sorted_wrt (\<ge>) (relevanceScores 10 rs q) \<and>
    \<not> sorted_wrt (\<ge>) (relevanceScores 10 rs' q) \<longrightarrow>
      calculateNDCG (Some rs) q = 100 \<and> calculateNDCG (Some rs') q < calculateNDCG (Some rs) q)"
proof -
  have below: "calculateNDCG (Some rs') q < 100" if "\<not> sorted_wrt (\<ge>) (relevanceScores 10 rs' q)"
    unfolding calculateNDCG_def using that by (rule ndcg_k_unsorted)
  have same: "mset (relevanceScores 10 rs' q) = mset (relevanceScores 10 rs q) \<and>
      idcgOf 10 rs' q = idcgOf 10 rs q" if m: "mset rs' = mset rs" and len: "length rs \<le> 10"
  proof -
    have p: "mset (relevanceScores 10 rs' q) = mset (relevanceScores 10 rs q)"
      using m len by (rule relevanceScores_perm)
    have "sortDescending (relevanceScores 10 rs' q) = sortDescending (relevanceScores 10 rs q)"
      using p by (rule sortDescending_perm)
    then have "idcgOf 10 rs' q = idcgOf 10 rs q" by (simp add: idcgOf_def)
    with p show ?thesis by blast
  qed
  have ideal: "calculateNDCG (Some rs) q = 100 \<and> calculateNDCG (Some rs') q < calculateNDCG (Some rs) q"
    if m: "mset rs' = mset rs" and len: "length rs \<le> 10"
      and srt: "sorted_wrt (\<ge>) (relevanceScores 10 rs q)"
      and uns: "\<not> sorted_wrt (\<ge>) (relevanceScores 10 rs' q)"
  proof -
    have i: "idcgOf 10 rs' q = idcgOf 10 rs q" using same [OF m len] by blast
    have "dcgOf 10 rs' q < idcgOf 10 rs' q"
      using dcgFrom_less_sorted [OF uns, of 0] by (simp add: dcgOf_def idcgOf_def dcgLoop_dcgFrom)
    with dcgOf_nonneg [of 10 rs' q] i have pos: "0 < idcgOf 10 rs q" by simp
    have "rs' \<noteq> []" using uns by (auto simp: relevanceScores_def)
    then have ne: "rs \<noteq> []" using m by auto
    have h: "calculateNDCG (Some rs) q = 100"
      unfolding calculateNDCG_def using ne srt pos by (rule ndcg_k_ideal)
    with below [OF uns] show ?thesis by simp
  qed
  show ?thesis using below same ideal by blast
qed

text \<open>
  An instance of the amended C3: a blank row before a fully matching row scores below the
  ideal order of the same two rows.
\<close>

theorem ndcg_reorder_strict_witness:
  "(mset [blankRow, fullRow] = mset [fullRow, blankRow] \<and> length [fullRow, blankRow] \<le> 10 \<and>
    sorted_wrt (\<ge>) (relevanceScores 10 [fullRow, blankRow] ''pixel'') \<and>
    \<not> sorted_wrt (\<ge>) (relevanceScores 10 [blankRow, fullRow] ''pixel'')) \<and>
   calculateNDCG (Some [blankRow, fullRow]) ''pixel'' < 100 \<and>
   idcgOf 10 [blankRow, fullRow] ''pixel'' = idcgOf 10 [fullRow, blankRow] ''pixel'' \<and>
   calculateNDCG (Some [fullRow, blankRow]) ''pixel'' = 100 \<and>
   calculateNDCG (Some [blankRow, fullRow]) ''pixel''
     < calculateNDCG (Some [fullRow, blankRow]) ''pixel''"
proof -
  have s: "relevanceScores 10 [fullRow, blankRow] ''pixel'' = [1, 0]"
    by (simp add: relevanceScores_def rel_fullRow rel_blankRow)
  have u: "relevanceScores 10 [blankRow, fullRow] ''pixel'' = [0, 1]"
    by (simp add: relevanceScores_def rel_fullRow rel_blankRow)
  have h: "mset [blankRow, fullRow] = mset [fullRow, blankRow] \<and> length [fullRow, blankRow] \<le> 10 \<and>
    sorted_wrt (\<ge>) (relevanceScores 10 [fullRow, blankRow] ''pixel'') \<and>
    \<not> sorted_wrt (\<ge>) (relevanceScores 10 [blankRow, fullRow] ''pixel'')"
    by (simp add: s u)
  show ?thesis
    using ndcg_reorder_strict [of "[blankRow, fullRow]" "''pixel''" "[fullRow, blankRow]"] h
    by blast
qed

subsection \<open>C4: one failing record in a batch\<close>

text \<open>
  Claim C4: in \<open>insertBatch\<close>, when the write of one record of a batch fails, the failure is
  logged, the other records of the batch are still written in the same transaction, and the
  transaction is committed, so that of \<open>B\<close> records \<open>B - 1\<close> are persisted. The loop does log
  the failure, go on to the next record and call \<open>Commit\<close> at the end, as its comment says.
  On PostgreSQL, the database the program opens, this does not persist the other records:
  the rejected statement aborts the transaction, every later statement of the batch is
  refused and logged in its turn, \<open>Commit\<close> returns an error and the table is left as it was
  before the batch. Stated for \<open>pgStore\<close>: when some record of the batch is rejected,
  \<open>insertBatch\<close> returns the error of \<open>Commit\<close>, the table is unchanged, and a line is
  logged for the first rejected record and for every record after it.
\<close>

theorem insertBatch_aborts_batch:
  "(\<exists>p \<in> set products. rejects (toRow p)) \<longrightarrow>
   fst (insertBatch (pgStore rejects) db products)
     = Some ''pq: Could not complete operation in a failed transaction'' \<and>
   fst (snd (insertBatch (pgStore rejects) db products)) = db \<and>
   length (snd (snd (insertBatch (pgStore rejects) db products)))
     = length (dropWhile (\<lambda>p. \<not> rejects (toRow p)) products)"
  using insertBatch_pgStore_failed [of products rejects db] by blast

text \<open>
  An instance of C4: of three products the second has an ASIN of 21 characters, which the
  column \<open>asin VARCHAR(20)\<close> rejects; the first and the third fit the table. Nothing is in
  the table afterwards, \<open>insertBatch\<close> returns an error, and lines are logged for the second
  and the third product.
\<close>

theorem insertBatch_aborts_batch_witness:
  "violatesSchema (toRow (demoProduct overlongAsin ''two'')) \<and>
   \<not> violatesSchema (toRow (demoProduct ''B1'' ''one'')) \<and>
   \<not> violatesSchema (toRow (demoProduct ''B3'' ''three'')) \<and>
   insertBatch (pgStore violatesSchema) []
     [demoProduct ''B1'' ''one'', demoProduct overlongAsin ''two'', demoProduct ''B3'' ''three'']
     = (Some ''pq: Could not complete operation in a failed transaction'', [],
        [(overlongAsin, ''pq: statement failed''),
         (''B3'', ''pq: current transaction is aborted'')])"
proof -
  have v: "violatesSchema (toRow (demoProduct overlongAsin ''two''))"
    and a: "\<not> violatesSchema (toRow (demoProduct ''B1'' ''one''))"
    and b: "\<not> violatesSchema (toRow (demoProduct ''B3'' ''three''))"
    by (simp_all add: violatesSchema_def toRow_def demoProduct_def overlongAsin_def)
  have l: "snd (snd (insertBatch (pgStore violatesSchema) []
     [demoProduct ''B1'' ''one'', demoProduct overlongAsin ''two'', demoProduct ''B3'' ''three'']))
     = [(overlongAsin, ''pq: statement failed''), (''B3'', ''pq: current transaction is aborted'')]"
    using v a b by (simp add: insertBatch_def pgStore_def) (simp add: demoProduct_def)
  have e: "\<exists>p \<in> set [demoProduct ''B1'' ''one'', demoProduct overlongAsin ''two'',
                      demoProduct ''B3'' ''three'']. violatesSchema (toRow p)"
    using v by simp
  show ?thesis
    using e l v a b insertBatch_aborts_batch [of
        "[demoProduct ''B1'' ''one'', demoProduct overlongAsin ''two'', demoProduct ''B3'' ''three'']"
        violatesSchema "[]"]
    by (metis prod.collapse)
qed

subsection \<open>C5: empty result sets\<close>

text \<open>
  Claim C5: for every query, \<open>calculateRelevanceScore\<close> and \<open>calculateNDCG\<close> return 0 on a
  result set that is \<open>null\<close> or empty.
\<close>

theorem scorers_empty_zero:
  "calculateRelevanceScore rx None q = Some 0 \<and> calculateRelevanceScore rx (Some []) q = Some 0 \<and>
   calculateNDCG None q = 0 \<and> calculateNDCG (Some []) q = 0"
  by (simp add: calculateRelevanceScore_def calculateNDCG_def calculateNDCG_k_def)

subsection \<open>C6: the points of a query term\<close>

text \<open>
  Claim C6, as stated: a term found as a substring earns 1 point and 2 more when it is also a
  whole word, and the scorer variants use one scheme. This fails: for the term \<open>apple\<close>,
  a whole word of the text of \<open>appleRow\<close>, the specification's scheme gives 3 points, the
  inner loop of \<open>calculateRelevanceScore\<close> gives 2 and that of \<open>calculateRelevance\<close> gives 5.
\<close>

theorem point_scheme_counterexample:
  "includes_str (haystack appleRow) ''apple'' \<and>
   wordBoundaryTest demoRegExp ''apple'' (haystack appleRow) = Some True \<and>
   forEachOpt (matchTerm demoRegExp (haystack appleRow)) (0, 0) [''apple''] = Some (1, 2) \<and>
   forEachOpt (benchMatchTerm demoRegExp (benchHaystack appleRow)) 0 [''apple''] = Some 5 \<and>
   specPoints True True = 3"
  by (simp add: appleRow_def specPoints_def scorer_eval string_eval)

text \<open>
  Claim C6, amended. In \<open>calculateRelevanceScore\<close> each query term found in the text of the
  result as a substring counts as one matched term and earns 2 points when the pattern built
  from the term also matches the text and 1 point otherwise; next to it, each term found as a
  substring of the lowercased title earns a title bonus of 3. In \<open>calculateRelevance\<close> each
  term found as a substring earns 2 points, and 3 more when the pattern also matches. In both,
  when the pattern of a term found as a substring is not a valid regular expression, the loop
  throws and awards nothing. For a term without metacharacters the pattern matches exactly
  when the term occurs as a whole word, without regard to case. The two variants use
  different schemes.
\<close>

theorem point_schemes:
  "forEachOpt (matchTerm rx hay) (0, 0) qterms =
     (if \<forall>t \<in> set qterms. includes_str hay t \<longrightarrow> wordBoundaryTest rx t hay \<noteq> None
      then Some (real (length (filter (includes_str hay) qterms)),
                 (\<Sum>t\<leftarrow>qterms. if includes_str hay t
                              then (if wordBoundaryTest rx t hay = Some True then 2 else 1)
                              else 0))
      else None) \<and>
   titleBonusOf qterms r
     = 3 * real (length (filter (includes_str (toLowerCase (orEmpty (title r)))) qterms)) \<and>
   forEachOpt (benchMatchTerm rx hay) 0 qterms =
     (if \<forall>t \<in> set qterms. includes_str hay t \<longrightarrow> wordBoundaryTest rx t hay \<noteq> None
      then Some (\<Sum>t\<leftarrow>qterms. if includes_str hay t
                             then (if wordBoundaryTest rx t hay = Some True then 2 + 3 else 2)
                             else 0)
      else None) \<and>
   (isLiteralTerm t \<longrightarrow> wordBoundaryTest rx t hay = Some (wbScan t False hay))"
  using matchTerm_loop_gen [of rx hay 0 0 qterms] benchMatchTerm_loop_gen [of rx hay 0 qterms]
    titleBonusOf_count [of qterms r] wordBoundaryTest_literal [of t rx hay]
  by simp

text \<open>
  An instance of the amended C6: in \<open>node.js in action\<close> the terms \<open>node.js\<close> and
  \<open>action\<close> match as whole words, \<open>act\<close> is a substring only and \<open>pear\<close> is absent;
  the first three are in the title. The term \<open>c++\<close>, found in \<open>c++ in action\<close>, has no
  valid pattern.
\<close>

theorem point_schemes_witness:
  "forEachOpt (matchTerm demoRegExp ''node.js in action'') (0, 0)
     [''node.js'', ''action'', ''act'', ''pear''] = Some (3, 5) \<and>
   titleBonusOf [''node.js'', ''action'', ''act'', ''pear'']
     \<lparr>title = Some ''Node.js in Action'', description = None, brand = None\<rparr> = 9 \<and>
   forEachOpt (benchMatchTerm demoRegExp ''node.js in action'') 0
     [''node.js'', ''action'', ''act'', ''pear''] = Some 12 \<and>
   forEachOpt (matchTerm demoRegExp ''c++ in action'') (0, 0) [''c++'', ''action''] = None \<and>
   (isLiteralTerm ''action'' \<and> wordBoundaryTest demoRegExp ''action'' ''node.js in action'' = Some True)"
proof -
  have w: "wordBoundaryTest demoRegExp ''node.js'' ''node.js in action'' = Some True"
    "wordBoundaryTest demoRegExp ''action'' ''node.js in action'' = Some True"
    "wordBoundaryTest demoRegExp ''act'' ''node.js in action'' = Some False"
    "wordBoundaryTest demoRegExp ''c++'' ''c++ in action'' = None"
    by (simp_all add: demoRegExp_def dotHere_def string_eval)
  have i: "includes_str ''node.js in action'' ''node.js''" "includes_str ''node.js in action'' ''action''"
    "includes_str ''node.js in action'' ''act''" "\<not> includes_str ''node.js in action'' ''pear''"
    "includes_str ''c++ in action'' ''c++''"
    by simp_all
  have l: "isLiteralTerm ''action''" by (simp add: string_eval)
  have c1: "\<forall>t \<in> set [''node.js'', ''action'', ''act'', ''pear''].
              includes_str ''node.js in action'' t
                \<longrightarrow> wordBoundaryTest demoRegExp t ''node.js in action'' \<noteq> None"
    by (auto simp: w i)
  have c2: "\<not> (\<forall>t \<in> set [''c++'', ''action''].
              includes_str ''c++ in action'' t
                \<longrightarrow> wordBoundaryTest demoRegExp t ''c++ in action'' \<noteq> None)"
    by (auto simp: w i)
  note T1 = point_schemes [of demoRegExp "''node.js in action''"
      "[''node.js'', ''action'', ''act'', ''pear'']"
      "\<lparr>title = Some ''Node.js in Action'', description = None, brand = None\<rparr>" "''action''"]
  note T2 = point_schemes [of demoRegExp "''c++ in action''" "[''c++'', ''action'']"
      "\<lparr>title = None, description = None, brand = None\<rparr>" "''action''"]
  have m: "forEachOpt (matchTerm demoRegExp ''node.js in action'') (0, 0)
     [''node.js'', ''action'', ''act'', ''pear''] = Some (3, 5)"
    using conjunct1 [OF T1] unfolding if_P [OF c1] by (simp add: w i)
  have t: "titleBonusOf [''node.js'', ''action'', ''act'', ''pear'']
     \<lparr>title = Some ''Node.js in Action'', description = None, brand = None\<rparr> = 9"
    using conjunct1 [OF conjunct2 [OF T1]] by (simp add: string_eval)
  have b: "forEachOpt (benchMatchTerm demoRegExp ''node.js in action'') 0
     [''node.js'', ''action'', ''act'', ''pear''] = Some 12"
    using conjunct1 [OF conjunct2 [OF conjunct2 [OF T1]]] unfolding if_P [OF c1] by (simp add: w i)
  have n: "forEachOpt (matchTerm demoRegExp ''c++ in action'') (0, 0) [''c++'', ''action''] = None"
    using conjunct1 [OF T2] unfolding if_not_P [OF c2] .
  show ?thesis using m t b n l w(2) by simp
qed

subsection \<open>C7: a failing query\<close>

text \<open>
  Claim C7: for every query text and search type, when the execution of a query raises an
  error, \<open>runVanillaQuery\<close> and \<open>runParadeQuery\<close> return a result with duration 0, count 0,
  no rows and the error message. Whatever the two engines do, the read loop of
  \<open>runBenchmark\<close> completes, and for each of the first five queries of each search type it
  prints a line that carries what both dispatchers returned for that query: the duration of
  each of them (0 for one that failed) and the relevance of the rows of each. In the handler
  of \<open>/api/benchmark\<close>, for every query text, a search that throws is replaced by the error
  result with score 0, and the handler goes on to the other engine: it answers with status
  200, the error result on one side and the result and score of the other engine on the other
  side. The one exit left is that of the scorer: when \<open>calculateRelevanceScore\<close> throws on
  the rows of the other engine (a query term with an invalid pattern found in a row), the
  handler answers with status 500, whether or not a search failed; for a query whose terms
  have no metacharacters the scorer does not throw.
\<close>

theorem query_failure_contained:
  "(duration (errorResult msg) = 0 \<and> rcount (errorResult msg) = 0 \<and>
    results (errorResult msg) = [] \<and> error (errorResult msg) = Some msg) \<and>
   (vanillaQueryCase query searchType = Some (statement, ps) \<and> vanillaPool statement ps = Inl msg
      \<longrightarrow> runVanillaQuery vanillaPool query searchType = Inr (errorResult msg)) \<and>
   (paradeQueryCase query searchType = Some (statement', ps') \<and> paradePool statement' ps' = Inl msg
      \<longrightarrow> runParadeQuery paradePool query searchType = Inr (errorResult msg)) \<and>
   (\<exists>out. readLoop rx vanillaPool paradePool testQueries = Inr out \<and>
      map (\<lambda>(searchType, vt, pt, printed). (searchType, map line_query printed)) out
        = map (\<lambda>(searchType, qs). (searchType, take 5 qs)) testQueries \<and>
      (\<forall>(searchType, vt, pt, printed) \<in> set out.
         \<forall>l \<in> set printed. reportsBoth rx vanillaPool paradePool searchType l)) \<and>
   (query \<noteq> [] \<and> runVanillaSearch vanillaPool query searchType = Inl msg \<and>
    p = (case runParadeSearch paradePool query searchType of Inl m \<Rightarrow> errorResult m | Inr r \<Rightarrow> r)
      \<longrightarrow>
      (case calculateRelevanceScore rx (Some (results p)) query of
         None \<Rightarrow>
           benchmarkHandler rx vanillaPool paradePool (Some query) (Some searchType)
             = Status500 SyntaxError
       | Some pRel \<Rightarrow>
           (\<exists>body. benchmarkHandler rx vanillaPool paradePool (Some query) (Some searchType)
                      = Status200 body \<and>
              vanilla body = errorResult msg \<and> vanillaScore body = 0 \<and>
              parade body = p \<and> paradeScore body = pRel))) \<and>
   (query \<noteq> [] \<and> runParadeSearch paradePool query searchType = Inl msg \<and>
    v = (case runVanillaSearch vanillaPool query searchType of Inl m \<Rightarrow> errorResult m | Inr r \<Rightarrow> r)
      \<longrightarrow>
      (case calculateRelevanceScore rx (Some (results v)) query of
         None \<Rightarrow>
           benchmarkHandler rx vanillaPool paradePool (Some query) (Some searchType)
             = Status500 SyntaxError
       | Some vRel \<Rightarrow>
           (\<exists>body. benchmarkHandler rx vanillaPool paradePool (Some query) (Some searchType)
                      = Status200 body \<and>
              vanilla body = v \<and> vanillaScore body = vRel \<and>
              parade body = errorResult msg \<and> paradeScore body = 0))) \<and>
   (query \<noteq> [] \<and> (\<forall>t \<in> set (splitWs (toLowerCase query)). isLiteralTerm t) \<longrightarrow>
      (\<exists>body. benchmarkHandler rx vanillaPool paradePool (Some query) (Some searchType)
                 = Status200 body \<and>
         vanilla body = (case runVanillaSearch vanillaPool query searchType of
                           Inl m \<Rightarrow> errorResult m | Inr r \<Rightarrow> r) \<and>
         parade body = (case runParadeSearch paradePool query searchType of
                          Inl m \<Rightarrow> errorResult m | Inr r \<Rightarrow> r)))"
proof (intro conjI impI)
  show "duration (errorResult msg) = 0" "rcount (errorResult msg) = 0"
    "results (errorResult msg) = []" "error (errorResult msg) = Some msg"
    by (simp_all add: errorResult_def)
next
  assume "vanillaQueryCase query searchType = Some (statement, ps) \<and> vanillaPool statement ps = Inl msg"
  then show "runVanillaQuery vanillaPool query searchType = Inr (errorResult msg)"
    by (simp add: runVanillaQuery_def)
next
  assume "paradeQueryCase query searchType = Some (statement', ps') \<and> paradePool statement' ps' = Inl msg"
  then show "runParadeQuery paradePool query searchType = Inr (errorResult msg)"
    by (simp add: runParadeQuery_def)
next
  show "\<exists>out. readLoop rx vanillaPool paradePool testQueries = Inr out \<and>
      map (\<lambda>(searchType, vt, pt, printed). (searchType, map line_query printed)) out
        = map (\<lambda>(searchType, qs). (searchType, take 5 qs)) testQueries \<and>
      (\<forall>(searchType, vt, pt, printed) \<in> set out.
         \<forall>l \<in> set printed. reportsBoth rx vanillaPool paradePool searchType l)"
    using testQueries_ok by (rule readLoop_completes)
next
  assume a: "query \<noteq> [] \<and> runVanillaSearch vanillaPool query searchType = Inl msg \<and>
    p = (case runParadeSearch paradePool query searchType of Inl m \<Rightarrow> errorResult m | Inr r \<Rightarrow> r)"
  have z: "calculateRelevanceScore rx (Some (results (errorResult msg))) query = Some 0"
    by (simp add: errorResult_def calculateRelevanceScore_def)
  show "case calculateRelevanceScore rx (Some (results p)) query of
         None \<Rightarrow>
           benchmarkHandler rx vanillaPool paradePool (Some query) (Some searchType)
             = Status500 SyntaxError
       | Some pRel \<Rightarrow>
           (\<exists>body. benchmarkHandler rx vanillaPool paradePool (Some query) (Some searchType)
                      = Status200 body \<and>
              vanilla body = errorResult msg \<and> vanillaScore body = 0 \<and>
              parade body = p \<and> paradeScore body = pRel)"
  proof (cases "calculateRelevanceScore rx (Some (results p)) query")
    case None
    then show ?thesis using a z by (simp add: benchmarkHandler_def Let_def orEmpty_def)
  next
    case (Some pRel)
    then show ?thesis using a z by (simp add: benchmarkHandler_def Let_def orEmpty_def)
  qed
next
  assume a: "query \<noteq> [] \<and> runParadeSearch paradePool query searchType = Inl msg \<and>
    v = (case runVanillaSearch vanillaPool query searchType of Inl m \<Rightarrow> errorResult m | Inr r \<Rightarrow> r)"
  have z: "calculateRelevanceScore rx (Some (results (errorResult msg))) query = Some 0"
    by (simp add: errorResult_def calculateRelevanceScore_def)
  show "case calculateRelevanceScore rx (Some (results v)) query of
         None \<Rightarrow>
           benchmarkHandler rx vanillaPool paradePool (Some query) (Some searchType)
             = Status500 SyntaxError
       | Some vRel \<Rightarrow>
           (\<exists>body. benchmarkHandler rx vanillaPool paradePool (Some query) (Some searchType)
                      = Status200 body \<and>
              vanilla body = v \<and> vanillaScore body = vRel \<and>
              parade body = errorResult msg \<and> paradeScore body = 0)"
  proof (cases "calculateRelevanceScore rx (Some (results v)) query")
    case None
    then show ?thesis using a z by (simp add: benchmarkHandler_def Let_def orEmpty_def)
  next
    case (Some vRel)
    then show ?thesis using a z by (simp add: benchmarkHandler_def Let_def orEmpty_def)
  qed
next
  assume a: "query \<noteq> [] \<and> (\<forall>t \<in> set (splitWs (toLowerCase query)). isLiteralTerm t)"
  define v where "v = (case runVanillaSearch vanillaPool query searchType of
                           Inl m \<Rightarrow> errorResult m | Inr r \<Rightarrow> r)"
  define p where "p = (case runParadeSearch paradePool query searchType of
                          Inl m \<Rightarrow> errorResult m | Inr r \<Rightarrow> r)"
  from a have lit: "\<forall>t \<in> set (splitWs (toLowerCase query)). isLiteralTerm t" by simp
  obtain vRel where vRel: "calculateRelevanceScore rx (Some (results v)) query = Some vRel"
    using calculateRelevanceScore_total [OF lit] by blast
  obtain pRel where pRel: "calculateRelevanceScore rx (Some (results p)) query = Some pRel"
    using calculateRelevanceScore_total [OF lit] by blast
  show "\<exists>body. benchmarkHandler rx vanillaPool paradePool (Some query) (Some searchType) = Status200 body \<and>
         vanilla body = (case runVanillaSearch vanillaPool query searchType of
                           Inl m \<Rightarrow> errorResult m | Inr r \<Rightarrow> r) \<and>
         parade body = (case runParadeSearch paradePool query searchType of
                          Inl m \<Rightarrow> errorResult m | Inr r \<Rightarrow> r)"
    using a vRel pRel unfolding v_def p_def
    by (simp add: benchmarkHandler_def Let_def orEmpty_def)
qed

text \<open>
  An instance of C7: with one engine refusing every query, the dispatchers return the error
  result, every line of the benchmark reports duration 0 for the engine that is down and
  the duration of the other engine, and the handler reports the error result next to the
  rows and the score of the other engine.
\<close>

theorem query_failure_contained_witness:
  "(vanillaQueryCase ''samsu'' ''fuzzy'' = Some (BV_fuzzy, [Text ''samsu'']) \<and>
    downPool BV_fuzzy [Text ''samsu''] = Inl ''connection refused'') \<and>
   runVanillaQuery downPool ''samsu'' ''fuzzy'' = Inr (errorResult ''connection refused'') \<and>
   (paradeQueryCase ''samsu'' ''fuzzy'' = Some (BP_fuzzy_term, [Text ''samsu'']) \<and>
    downPool BP_fuzzy_term [Text ''samsu''] = Inl ''connection refused'') \<and>
   runParadeQuery downPool ''samsu'' ''fuzzy'' = Inr (errorResult ''connection refused'') \<and>
   (\<exists>out. readLoop demoRegExp downPool demoPool testQueries = Inr out \<and>
      map (\<lambda>(searchType, vt, pt, printed). (searchType, length printed)) out
        = [(''fulltext'', 5), (''boolean'', 5), (''field'', 5), (''fuzzy'', 5), (''exact'', 5)] \<and>
      (\<forall>(searchType, vt, pt, printed) \<in> set out.
         \<forall>l \<in> set printed. vanillaMs l = 0 \<and> paradeMs l = 7)) \<and>
   (''samsu'' \<noteq> [] \<and> runVanillaSearch downPool ''samsu'' ''fuzzy'' = Inl ''connection refused'') \<and>
   (\<exists>body. benchmarkHandler demoRegExp downPool demoPool (Some ''samsu'') (Some ''fuzzy'')
              = Status200 body \<and>
      vanilla body = errorResult ''connection refused'' \<and> vanillaScore body = 0 \<and>
      results (parade body) = [samsungRow, appleRow] \<and> paradeScore body = 40) \<and>
   runParadeSearch downPool ''samsu'' ''fuzzy'' = Inl ''connection refused'' \<and>
   (\<exists>body. benchmarkHandler demoRegExp demoPool downPool (Some ''samsu'') (Some ''fuzzy'')
              = Status200 body \<and>
      results (vanilla body) = [samsungRow, appleRow] \<and> vanillaScore body = 40 \<and>
      parade body = errorResult ''connection refused'' \<and> paradeScore body = 0) \<and>
   (splitWs (toLowerCase ''samsu'') = [''samsu''] \<and> isLiteralTerm ''samsu'')"
proof -
  have v: "vanillaQueryCase ''samsu'' ''fuzzy'' = Some (BV_fuzzy, [Text ''samsu'']) \<and>
    downPool BV_fuzzy [Text ''samsu''] = Inl ''connection refused''"
    by (simp add: vanillaQueryCase_def downPool_def)
  have p: "paradeQueryCase ''samsu'' ''fuzzy'' = Some (BP_fuzzy_term, [Text ''samsu'']) \<and>
    downPool BP_fuzzy_term [Text ''samsu''] = Inl ''connection refused''"
    by (simp add: paradeQueryCase_def downPool_def)
  have l: "splitWs (toLowerCase ''samsu'') = [''samsu''] \<and> isLiteralTerm ''samsu''"
    by (simp add: string_eval)
  have sv: "runVanillaSearch downPool ''samsu'' ''fuzzy'' = Inl ''connection refused''"
    by (simp add: runVanillaSearch_def vanillaSearchCase_def downPool_def)
  have sp: "runParadeSearch downPool ''samsu'' ''fuzzy'' = Inl ''connection refused''"
    by (simp add: runParadeSearch_def paradeSearchCase_def downPool_def Let_def)
  define pv where "pv = (case runParadeSearch demoPool ''samsu'' ''fuzzy'' of
                           Inl m \<Rightarrow> errorResult m | Inr r \<Rightarrow> r)"
  define vv where "vv = (case runVanillaSearch demoPool ''samsu'' ''fuzzy'' of
                           Inl m \<Rightarrow> errorResult m | Inr r \<Rightarrow> r)"
  have rp: "results pv = [samsungRow, appleRow]"
    by (simp add: pv_def runParadeSearch_def paradeSearchCase_def demoPool_def Let_def)
  have rv: "results vv = [samsungRow, appleRow]"
    by (simp add: vv_def runVanillaSearch_def vanillaSearchCase_def demoPool_def)
  have sc: "calculateRelevanceScore demoRegExp (Some [samsungRow, appleRow]) ''samsu'' = Some 40"
    by code_simp
  note T1 = query_failure_contained [where msg = "''connection refused''" and query = "''samsu''"
      and searchType = "''fuzzy''" and statement = BV_fuzzy and ps = "[Text ''samsu'']"
      and vanillaPool = downPool and ?statement' = BP_fuzzy_term and ?ps' = "[Text ''samsu'']"
      and paradePool = demoPool and rx = demoRegExp and p = pv and v = vv]
  note T2 = query_failure_contained [where msg = "''connection refused''" and query = "''samsu''"
      and searchType = "''fuzzy''" and statement = BV_fuzzy and ps = "[Text ''samsu'']"
      and vanillaPool = demoPool and ?statement' = BP_fuzzy_term and ?ps' = "[Text ''samsu'']"
      and paradePool = downPool and rx = demoRegExp and p = pv and v = vv]
  have d1: "runVanillaQuery downPool ''samsu'' ''fuzzy'' = Inr (errorResult ''connection refused'')"
    using T1 v by blast
  have d2: "runParadeQuery downPool ''samsu'' ''fuzzy'' = Inr (errorResult ''connection refused'')"
    using T2 p by blast
  from T1 obtain out where o: "readLoop demoRegExp downPool demoPool testQueries = Inr out"
    and m: "map (\<lambda>(searchType, vt, pt, printed). (searchType, map line_query printed)) out
        = map (\<lambda>(searchType, qs). (searchType, take 5 qs)) testQueries"
    and b: "\<forall>(searchType, vt, pt, printed) \<in> set out.
         \<forall>l \<in> set printed. reportsBoth demoRegExp downPool demoPool searchType l"
    by blast
  have "map (\<lambda>(searchType, ls). (searchType, length ls))
          (map (\<lambda>(searchType, vt, pt, printed). (searchType, map line_query printed)) out)
        = map (\<lambda>(searchType, ls). (searchType, length ls))
          (map (\<lambda>(searchType, qs). (searchType, take 5 qs)) testQueries)"
    using m by (rule arg_cong)
  then have n: "map (\<lambda>(searchType, vt, pt, printed). (searchType, length printed)) out
        = [(''fulltext'', 5), (''boolean'', 5), (''field'', 5), (''fuzzy'', 5), (''exact'', 5)]"
    by (simp add: testQueries_def comp_def split_def)
  have z: "\<forall>(searchType, vt, pt, printed) \<in> set out.
         \<forall>l \<in> set printed. vanillaMs l = 0 \<and> paradeMs l = 7"
    using b reportsBoth_down by fastforce
  have run: "\<exists>out. readLoop demoRegExp downPool demoPool testQueries = Inr out \<and>
      map (\<lambda>(searchType, vt, pt, printed). (searchType, length printed)) out
        = [(''fulltext'', 5), (''boolean'', 5), (''field'', 5), (''fuzzy'', 5), (''exact'', 5)] \<and>
      (\<forall>(searchType, vt, pt, printed) \<in> set out.
         \<forall>l \<in> set printed. vanillaMs l = 0 \<and> paradeMs l = 7)"
    by (rule exI [of _ out]) (intro conjI o n z)
  have "case calculateRelevanceScore demoRegExp (Some (results pv)) ''samsu'' of
         None \<Rightarrow>
           benchmarkHandler demoRegExp downPool demoPool (Some ''samsu'') (Some ''fuzzy'')
             = Status500 SyntaxError
       | Some pRel \<Rightarrow>
           (\<exists>body. benchmarkHandler demoRegExp downPool demoPool (Some ''samsu'') (Some ''fuzzy'')
                      = Status200 body \<and>
              vanilla body = errorResult ''connection refused'' \<and> vanillaScore body = 0 \<and>
              parade body = pv \<and> paradeScore body = pRel)"
    using T1 sv pv_def by blast
  then have h1: "\<exists>body. benchmarkHandler demoRegExp downPool demoPool (Some ''samsu'') (Some ''fuzzy'')
              = Status200 body \<and>
      vanilla body = errorResult ''connection refused'' \<and> vanillaScore body = 0 \<and>
      results (parade body) = [samsungRow, appleRow] \<and> paradeScore body = 40"
    using rp by (auto simp: sc)
  have "case calculateRelevanceScore demoRegExp (Some (results vv)) ''samsu'' of
         None \<Rightarrow>
           benchmarkHandler demoRegExp demoPool downPool (Some ''samsu'') (Some ''fuzzy'')
             = Status500 SyntaxError
       | Some vRel \<Rightarrow>
           (\<exists>body. benchmarkHandler demoRegExp demoPool downPool (Some ''samsu'') (Some ''fuzzy'')
                      = Status200 body \<and>
              vanilla body = vv \<and> vanillaScore body = vRel \<and>
              parade body = errorResult ''connection refused'' \<and> paradeScore body = 0)"
    using T2 sp vv_def by blast
  then have h2: "\<exists>body. benchmarkHandler demoRegExp demoPool downPool (Some ''samsu'') (Some ''fuzzy'')
              = Status200 body \<and>
      results (vanilla body) = [samsungRow, appleRow] \<and> vanillaScore body = 40 \<and>
      parade body = errorResult ''connection refused'' \<and> paradeScore body = 0"
    using rv by (auto simp: sc)
  show ?thesis
    using v d1 p d2 run sv h1 sp h2 l by blast
qed

subsection \<open>C8: the counter of processed records\<close>

text \<open>
  Claim C8, as stated: the counter is incremented after each successfully processed record,
  so that its final value is the number of records written to the store. This fails: the
  scanning loop increments the counter when it appends a record to a batch, before any write.
  Of two valid records of which the table rejects one, the counter is 2 and one row is
  written.
\<close>

theorem processedCount_counterexample:
  "processAmazonData (recordStore (\<lambda>r. r_asin r = ''B2'')) demoUnmarshal [0] [] [''B1'', ''B2'']
     = (2, [toRow (demoProduct ''B1'' ''Some title'')])"
  by (simp add: processAmazonData_def finalCount_def sentBatches_def SampleSize_def BatchSize_def
      toJSONLine_def demoUnmarshal_def dquote_def demoProduct_def insertBatch_recordStore toRow_def)

text \<open>
  Claim C8, amended: the final counter is the number of decoded records with a non-empty
  ASIN and title, whatever the store does and in whatever order the workers take the batches
  (as a 32-bit value; read as a signed number it is that number when it is below \<open>2^31\<close>).
  With a store whose errors are local to the record, and every batch handled once, the table
  grows by the number of those records that it does not reject: by all \<open>N\<close> of them when no
  write fails.
\<close>

theorem processedCount_counts_forwarded:
  "fst (processAmazonData S unmarshal order db lines)
     = of_nat (length (filter okProduct (parsedRecords unmarshal lines))) \<and>
   (length (filter okProduct (parsedRecords unmarshal lines)) < 2 ^ 31 \<longrightarrow>
      sint (fst (processAmazonData S unmarshal order db lines))
        = int (length (filter okProduct (parsedRecords unmarshal lines)))) \<and>
   (mset order' = mset [0..<length (sentBatches unmarshal BatchSize lines)] \<longrightarrow>
      length (snd (processAmazonData (recordStore rejects) unmarshal order' table lines))
        = length table
          + length (filter (\<lambda>p. \<not> rejects (toRow p)) (filter okProduct (parsedRecords unmarshal lines))))"
proof (intro conjI impI)
  show c: "fst (processAmazonData S unmarshal order db lines)
     = of_nat (length (filter okProduct (parsedRecords unmarshal lines)))"
    by (simp add: processAmazonData_def finalCount_eq)
  assume "length (filter okProduct (parsedRecords unmarshal lines)) < 2 ^ 31"
  then show "sint (fst (processAmazonData S unmarshal order db lines))
        = int (length (filter okProduct (parsedRecords unmarshal lines)))"
    unfolding c by (rule sint_count)
next
  assume "mset order' = mset [0..<length (sentBatches unmarshal BatchSize lines)]"
  then show "length (snd (processAmazonData (recordStore rejects) unmarshal order' table lines))
        = length table
          + length (filter (\<lambda>p. \<not> rejects (toRow p)) (filter okProduct (parsedRecords unmarshal lines)))"
    by (simp add: processAmazonData_def runWorkers_recordStore length_written concat_sentBatches)
qed

text \<open>
  An instance of the amended C8: two valid records and a table that rejects nothing.
\<close>

theorem processedCount_counts_forwarded_witness:
  "(length (filter okProduct (parsedRecords demoUnmarshal [''B1'', ''B2''])) < 2 ^ 31 \<and>
    mset [0] = mset [0..<length (sentBatches demoUnmarshal BatchSize [''B1'', ''B2''])]) \<and>
   sint (fst (processAmazonData (recordStore (\<lambda>r. False)) demoUnmarshal [0] [] [''B1'', ''B2''])) = 2 \<and>
   length (snd (processAmazonData (recordStore (\<lambda>r. False)) demoUnmarshal [0] [] [''B1'', ''B2''])) = 2"
proof -
  have p: "parsedRecords demoUnmarshal [''B1'', ''B2'']
      = [demoProduct ''B1'' ''Some title'', demoProduct ''B2'' ''Some title'']"
    by (simp add: parsedRecords_def List.map_filter_simps toJSONLine_def demoUnmarshal_def dquote_def)
  have f: "filter okProduct (parsedRecords demoUnmarshal [''B1'', ''B2''])
      = [demoProduct ''B1'' ''Some title'', demoProduct ''B2'' ''Some title'']"
    by (simp add: p okProduct_def demoProduct_def)
  have b: "sentBatches demoUnmarshal BatchSize [''B1'', ''B2'']
      = [[demoProduct ''B1'' ''Some title'', demoProduct ''B2'' ''Some title'']]"
    by (simp add: sentBatches_def SampleSize_def BatchSize_def toJSONLine_def demoUnmarshal_def
        dquote_def demoProduct_def)
  show ?thesis
    using processedCount_counts_forwarded [of "recordStore (\<lambda>r. False)" demoUnmarshal "[0]" "[]"
        "[''B1'', ''B2'']" "[0]" "\<lambda>r. False" "[]"]
    by (simp add: f b)
qed

subsection \<open>C9: the records forwarded to storage\<close>

text \<open>
  Claim C9: the batches sent to the workers hold, in order, exactly the decoded records whose
  ASIN and title are both non-empty: a decoded record is forwarded if and only if it passes
  this check, and the counter counts the forwarded records only.
\<close>

theorem forwarded_iff_valid:
  "concat (sentBatches unmarshal BatchSize lines)
     = filter (\<lambda>p. ASIN p \<noteq> [] \<and> Title p \<noteq> []) (parsedRecords unmarshal lines) \<and>
   (p \<in> set (concat (sentBatches unmarshal BatchSize lines)) \<longleftrightarrow>
      p \<in> set (parsedRecords unmarshal lines) \<and> ASIN p \<noteq> [] \<and> Title p \<noteq> []) \<and>
   finalCount unmarshal BatchSize lines
     = of_nat (length (filter (\<lambda>p. ASIN p \<noteq> [] \<and> Title p \<noteq> []) (parsedRecords unmarshal lines)))"
  using concat_sentBatches [of unmarshal BatchSize lines] finalCount_eq [of unmarshal BatchSize lines]
  unfolding okProduct_eq by auto

text \<open>
  An instance of C9: of five lines, one is empty, one does not decode and one decodes to a
  record without title; the two others are forwarded and counted.
\<close>

theorem forwarded_iff_valid_witness:
  "concat (sentBatches demoUnmarshal BatchSize [''B1'', [], ''{'', ''untitled'', ''B2''])
     = [demoProduct ''B1'' ''Some title'', demoProduct ''B2'' ''Some title''] \<and>
   finalCount demoUnmarshal BatchSize [''B1'', [], ''{'', ''untitled'', ''B2''] = 2"
proof -
  have "parsedRecords demoUnmarshal [''B1'', [], ''{'', ''untitled'', ''B2'']
      = [demoProduct ''B1'' ''Some title'', demoProduct ''B0'' [], demoProduct ''B2'' ''Some title'']"
    by (simp add: parsedRecords_def List.map_filter_simps toJSONLine_def demoUnmarshal_def dquote_def)
  then show ?thesis
    using forwarded_iff_valid [of demoUnmarshal "[''B1'', [], ''{'', ''untitled'', ''B2'']"]
    by (simp add: demoProduct_def)
qed

subsection \<open>C10: search types without a case\<close>

text \<open>
  Claim C10: for a search type other than \<open>fulltext\<close>, \<open>boolean\<close>, \<open>field\<close>, \<open>like\<close>
  and \<open>exact\<close>, \<open>runVanillaSearch\<close> runs the default full-text statement on the query and
  \<open>runParadeSearch\<close> the default phrase query over the three fields; when the engine
  answers, each returns a result without error.
\<close>

theorem default_strategies:
  "searchType \<notin> set [''fulltext'', ''boolean'', ''field'', ''like'', ''exact''] \<Longrightarrow>
   vanillaSearchCase query searchType = (SV_default, [Text query]) \<and>
   paradeSearchCase query searchType
     = (SP_default, [Text (phraseQuery query)], Some (phraseQuery query)) \<and>
   (vanillaPool SV_default [Text query] = Inr a \<longrightarrow>
      runVanillaSearch vanillaPool query searchType
        = Inr \<lparr>results = rows a, duration = elapsedMs a, rcount = rowCount a, error = None,
               actualQuery = Some SV_default, params = [Text query], searchQuery = None,
               engine = Some ''PostgreSQL Full-Text Search''\<rparr>) \<and>
   (paradePool SP_default [Text (phraseQuery query)] = Inr b \<longrightarrow>
      runParadeSearch paradePool query searchType
        = Inr \<lparr>results = rows b, duration = elapsedMs b, rcount = rowCount b, error = None,
               actualQuery = Some SP_default, params = [Text (phraseQuery query)],
               searchQuery = Some (phraseQuery query), engine = Some ''ParadeDB BM25 Search''\<rparr>)"
proof -
  assume n: "searchType \<notin> set [''fulltext'', ''boolean'', ''field'', ''like'', ''exact'']"
  have v: "vanillaSearchCase query searchType = (SV_default, [Text query])"
    using n by (simp add: vanillaSearchCase_def)
  have p: "paradeSearchCase query searchType
     = (SP_default, [Text (phraseQuery query)], Some (phraseQuery query))"
    using n by (simp add: paradeSearchCase_def phraseQuery_def Let_def)
  have ne: "phraseQuery query \<noteq> []" by (simp add: phraseQuery_def)
  show ?thesis
    using ne by (simp add: v p runVanillaSearch_def runParadeSearch_def)
qed

text \<open>
  An instance of C10: the search type \<open>fuzzy\<close> of the specification.
\<close>

theorem default_strategies_witness:
  "''fuzzy'' \<notin> set [''fulltext'', ''boolean'', ''field'', ''like'', ''exact''] \<and>
   vanillaSearchCase ''samsu'' ''fuzzy'' = (SV_default, [Text ''samsu'']) \<and>
   (\<exists>r. runVanillaSearch demoPool ''samsu'' ''fuzzy'' = Inr r \<and> error r = None \<and>
        actualQuery r = Some SV_default \<and> results r = [samsungRow, appleRow]) \<and>
   (\<exists>r. runParadeSearch demoPool ''samsu'' ''fuzzy'' = Inr r \<and> error r = None \<and>
        actualQuery r = Some SP_default \<and> results r = [samsungRow, appleRow])"
proof -
  have h: "''fuzzy'' \<notin> set [''fulltext'', ''boolean'', ''field'', ''like'', ''exact'']" by simp
  have a: "demoPool SV_default [Text ''samsu'']
      = Inr \<lparr>rows = [samsungRow, appleRow], rowCount = 2, elapsedMs = 7\<rparr>"
    and b: "demoPool SP_default [Text (phraseQuery ''samsu'')]
      = Inr \<lparr>rows = [samsungRow, appleRow], rowCount = 2, elapsedMs = 7\<rparr>"
    by (simp_all add: demoPool_def)
  show ?thesis
    using default_strategies [OF h, of "''samsu''" demoPool
        "\<lparr>rows = [samsungRow, appleRow], rowCount = 2, elapsedMs = 7\<rparr>" demoPool
        "\<lparr>rows = [samsungRow, appleRow], rowCount = 2, elapsedMs = 7\<rparr>"] a b
    by simp
qed

end
